theory Spec2Isabelle
  imports Main "HOL-Library.Monad_Syntax"
begin

unbundle bit_operations_syntax

section \<open>SD card (SPI mode) protocol decoder: data model\<close>

text \<open>
  The development embeds \<^verbatim>\<open>decoders/sdcard_spi/pd.py\<close>. The decoder object is a
  record; a method that mutates \<^verbatim>\<open>self\<close> takes the record and returns the new one.
  A method that raises (a missing attribute, a missing handler method, an index out of
  range) returns \<open>None\<close>. Byte values and sample numbers are Python numbers that the
  SPI layer supplies as non-negative integers: they are \<open>nat\<close> here.
\<close>

text \<open>One entry of a bit array of the SPI layer: the list \<^verbatim>\<open>[bit, ss, es]\<close>.\<close>

type_synonym sbit = "nat \<times> nat \<times> nat"

definition bit_val :: "sbit \<Rightarrow> nat" where
  "bit_val b = fst b"

definition bit_ss :: "sbit \<Rightarrow> nat" where
  "bit_ss b = fst (snd b)"

definition bit_es :: "sbit \<Rightarrow> nat" where
  "bit_es b = snd (snd b)"

type_synonym bits = "sbit list"

text \<open>An annotation handed to the output: start sample, end sample, class, text.\<close>

type_synonym ann = "nat \<times> nat \<times> nat \<times> string"

text \<open>
  The annotation classes: \<^verbatim>\<open>Ann\<close> enumerates the list
  \<^verbatim>\<open>CMD0..CMD63, ACMD0..ACMD63, R1, R1B, R2, R3, R7, BIT, BIT_WARNING\<close> from 0.
\<close>

definition Ann_CMD :: "nat \<Rightarrow> nat" where
  "Ann_CMD i = i"

definition Ann_ACMD :: "nat \<Rightarrow> nat" where
  "Ann_ACMD i = 64 + i"

definition Ann_R1 :: nat where
  "Ann_R1 = 128"

definition Ann_R1B :: nat where
  "Ann_R1B = 129"

definition Ann_R2 :: nat where
  "Ann_R2 = 130"

definition Ann_R3 :: nat where
  "Ann_R3 = 131"

definition Ann_R7 :: nat where
  "Ann_R7 = 132"

definition Ann_BIT :: nat where
  "Ann_BIT = 133"

definition Ann_BIT_WARNING :: nat where
  "Ann_BIT_WARNING = 134"

text \<open>
  The values of \<^verbatim>\<open>self.state\<close>. The strings \<^verbatim>\<open>'HANDLE CMD%d' % cmd\<close> and
  \<^verbatim>\<open>'HANDLE CMD999'\<close> are \<open>HANDLE_CMD cmd\<close> and \<open>HANDLE_CMD 999\<close>.
\<close>

datatype phase =
    IDLE
  | GET_COMMAND_TOKEN
  | HANDLE_CMD nat
  | GET_RESPONSE_R1
  | GET_RESPONSE_R2
  | GET_RESPONSE_R3
  | GET_RESPONSE_R7
  | HANDLE_DATA_BLOCK_CMD17
  | HANDLE_DATA_BLOCK_CMD24
  | DATA_RESPONSE
  | WAIT_WHILE_CARD_BUSY

text \<open>
  The attributes of the decoder object. Those that \<^verbatim>\<open>reset\<close> does not assign
  (\<^verbatim>\<open>mosi_bits\<close>, \<^verbatim>\<open>miso_bits\<close>, \<^verbatim>\<open>cmd_index\<close>, \<^verbatim>\<open>arg\<close>, \<^verbatim>\<open>mosi\<close>, \<^verbatim>\<open>miso\<close>,
  \<^verbatim>\<open>ss_data\<close>, \<^verbatim>\<open>es_data\<close>, \<^verbatim>\<open>ss_crc\<close>, \<^verbatim>\<open>es_crc\<close>) are options: \<open>None\<close> is an
  attribute that does not exist yet, and reading it raises. The field \<open>annotations\<close>
  is the sequence of calls of \<^verbatim>\<open>self.put\<close> on the annotation output so far.
\<close>

record decoder =
  state :: phase
  ss :: nat
  es :: nat
  ss_bit :: nat
  es_bit :: nat
  ss_cmd :: nat
  es_cmd :: nat
  ss_busy :: nat
  es_busy :: nat
  cmd_token :: "nat list"
  cmd_token_bits :: "bits list"
  is_acmd :: bool
  blocklen :: nat
  read_buf :: "nat list"
  read_bits :: "bits list"
  cmd_str :: string
  is_cmd24 :: bool
  cmd24_start_token_found :: bool
  is_cmd17 :: bool
  cmd17_start_token_found :: bool
  busy_first_byte :: bool
  mosi_bits :: "bits option"
  miso_bits :: "bits option"
  cmd_index :: "nat option"
  arg :: "nat option"
  mosi :: "nat option"
  miso :: "nat option"
  ss_data :: "nat option"
  es_data :: "nat option"
  ss_crc :: "nat option"
  es_crc :: "nat option"
  annotations :: "ann list"

text \<open>
  The tables \<^verbatim>\<open>cmd_names\<close> and \<^verbatim>\<open>acmd_names\<close> of \<^verbatim>\<open>common.sdcard\<close> are not part
  of the decoder's file: they are a parameter of the functions that look names up.
\<close>

record names =
  cmd_names :: "nat \<rightharpoonup> string"
  acmd_names :: "nat \<rightharpoonup> string"

text \<open>The packets of the SPI layer, as \<^verbatim>\<open>decode\<close> tells them apart by \<^verbatim>\<open>ptype\<close>.\<close>

datatype packet =
    DATA nat nat
  | BITS bits bits
  | CS_CHANGE "nat option" "nat option"
  | TRANSFER

section \<open>Python primitives\<close>

text \<open>List indexing with a non-negative index: out of range raises.\<close>

definition idx :: "'a list \<Rightarrow> nat \<Rightarrow> 'a option" where
  "idx xs i = (if i < length xs then Some (xs ! i) else None)"

text \<open>The digits of \<^verbatim>\<open>'%d'\<close> and \<^verbatim>\<open>'%x'\<close>.\<close>

function digits_base :: "nat \<Rightarrow> nat \<Rightarrow> string" where
  "digits_base b n =
     (if b < 2 \<or> n < b then [''0123456789abcdef'' ! n]
      else digits_base b (n div b) @ [''0123456789abcdef'' ! (n mod b)])"
  by pat_completeness auto
termination
  by (relation "measure (\<lambda>(b, n). n)") auto

declare digits_base.simps [simp del]

definition str_dec :: "nat \<Rightarrow> string" where
  "str_dec n = digits_base 10 n"

text \<open>\<^verbatim>\<open>'%0wx' % n\<close>: lower-case hexadecimal, padded with zeros to at least \<open>w\<close> digits.\<close>

definition hex_pad :: "nat \<Rightarrow> nat \<Rightarrow> string" where
  "hex_pad w n = (let d = digits_base 16 n in replicate (w - length d) (CHR ''0'') @ d)"

text \<open>\<^verbatim>\<open>'%s' % xs\<close> for a list of numbers: \<^verbatim>\<open>[1, 2, 3]\<close>.\<close>

fun join_comma :: "string list \<Rightarrow> string" where
  "join_comma [] = []"
| "join_comma [x] = x"
| "join_comma (x # y # ys) = x @ '', '' @ join_comma (y # ys)"

definition repr_list :: "nat list \<Rightarrow> string" where
  "repr_list xs = ''['' @ join_comma (map str_dec xs) @ '']''"

section \<open>The decoder\<close>

text \<open>\<^verbatim>\<open>reset\<close>, as run by \<^verbatim>\<open>__init__\<close> on a new object, with no annotation put yet.\<close>

definition reset :: decoder where
  "reset = \<lparr> state = IDLE, ss = 0, es = 0, ss_bit = 0, es_bit = 0, ss_cmd = 0, es_cmd = 0,
     ss_busy = 0, es_busy = 0, cmd_token = [], cmd_token_bits = [], is_acmd = False,
     blocklen = 0, read_buf = [], read_bits = [], cmd_str = [], is_cmd24 = False,
     cmd24_start_token_found = False, is_cmd17 = False, cmd17_start_token_found = False,
     busy_first_byte = False, mosi_bits = None, miso_bits = None, cmd_index = None,
     arg = None, mosi = None, miso = None, ss_data = None, es_data = None, ss_crc = None,
     es_crc = None, annotations = [] \<rparr>"

definition put :: "nat \<Rightarrow> nat \<Rightarrow> nat \<Rightarrow> string \<Rightarrow> decoder \<Rightarrow> decoder" where
  "put ss_v es_v cls txt s = s\<lparr>annotations := annotations s @ [(ss_v, es_v, cls, txt)]\<rparr>"

definition putx :: "nat \<Rightarrow> string \<Rightarrow> decoder \<Rightarrow> decoder" where
  "putx cls txt s = put (ss_cmd s) (es_cmd s) cls txt s"

definition putc :: "nat \<Rightarrow> string \<Rightarrow> decoder \<Rightarrow> decoder" where
  "putc cmd desc s = putx cmd (cmd_str s @ '': '' @ desc) s"

definition putb :: "nat \<Rightarrow> string \<Rightarrow> decoder \<Rightarrow> decoder" where
  "putb cls txt s = put (ss_bit s) (es_bit s) cls txt s"

definition cmd_name :: "names \<Rightarrow> decoder \<Rightarrow> nat \<Rightarrow> string" where
  "cmd_name T s cmd =
     (let c = (if is_acmd s then acmd_names T else cmd_names T);
          n = (case c cmd of None \<Rightarrow> ''Unknown'' | Some v \<Rightarrow> v)
      in if cmd = 32 \<or> cmd = 33 then n @ ''_ADDR'' else n)"

text \<open>The local function \<^verbatim>\<open>tb\<close> of \<^verbatim>\<open>handle_command_token\<close>.\<close>

definition tb :: "decoder \<Rightarrow> nat \<Rightarrow> nat \<Rightarrow> sbit option" where
  "tb s byte b = do { bs \<leftarrow> idx (cmd_token_bits s) (5 - byte); idx bs b }"

definition handle_command_token :: "names \<Rightarrow> nat \<Rightarrow> nat \<Rightarrow> decoder \<Rightarrow> decoder option" where
  "handle_command_token T mo mi s0 = do {
     let s = (if length (cmd_token s0) = 0 then s0\<lparr>ss_cmd := ss s0\<rparr> else s0);
     let s = s\<lparr>cmd_token := cmd_token s @ [mo]\<rparr>;
     mb \<leftarrow> mosi_bits s;
     let s = s\<lparr>cmd_token_bits := cmd_token_bits s @ [mb]\<rparr>;
     if length (cmd_token s) < 6 then Some s
     else do {
       let s = s\<lparr>es_cmd := es s\<rparr>;
       let t = cmd_token s;
       b \<leftarrow> tb s 5 7;
       let s = s\<lparr>ss_bit := bit_ss b, es_bit := bit_es b\<rparr>;
       let s = (if bit_val b = 0 then putb Ann_BIT (''Start bit: '' @ str_dec (bit_val b)) s
                else putb Ann_BIT_WARNING
                       (''Start bit: '' @ str_dec (bit_val b) @ '' (Warning: Must be 0!)'') s);
       b \<leftarrow> tb s 5 6;
       let s = s\<lparr>ss_bit := bit_ss b, es_bit := bit_es b\<rparr>;
       let s = (if bit_val b = 1 then putb Ann_BIT (''Transmitter bit: '' @ str_dec (bit_val b)) s
                else putb Ann_BIT_WARNING
                       (''Transmitter bit: '' @ str_dec (bit_val b) @ '' (Warning: Must be 1!)'') s);
       t0 \<leftarrow> idx t 0;
       let cmd = t0 AND 0x3f;
       let s = s\<lparr>cmd_index := Some cmd\<rparr>;
       b5 \<leftarrow> tb s 5 5;
       b0 \<leftarrow> tb s 5 0;
       let s = s\<lparr>ss_bit := bit_ss b5, es_bit := bit_es b0\<rparr>;
       let s = (if cmd = 55 then s\<lparr>is_acmd := False\<rparr>
                else if cmd \<notin> {13, 18, 22, 23, 25, 26, 38, 41, 42, 43, 44, 45, 46, 47, 48, 49, 51}
                then s\<lparr>is_acmd := False\<rparr> else s);
       let pre = (if is_acmd s then ''ACMD'' else ''CMD'');
       let s = putb Ann_BIT
                 (''Command: '' @ pre @ str_dec cmd @ '' ('' @ cmd_name T s cmd @ '')'') s;
       t1 \<leftarrow> idx t 1;
       t2 \<leftarrow> idx t 2;
       t3 \<leftarrow> idx t 3;
       t4 \<leftarrow> idx t 4;
       let a = push_bit 24 t1 OR push_bit 16 t2 OR push_bit 8 t3 OR t4;
       let s = s\<lparr>arg := Some a\<rparr>;
       b7 \<leftarrow> tb s 4 7;
       b0 \<leftarrow> tb s 1 0;
       let s = s\<lparr>ss_bit := bit_ss b7, es_bit := bit_es b0\<rparr>;
       let s = putb Ann_BIT (''Argument: 0x'' @ hex_pad 4 a) s;
       t5 \<leftarrow> idx t 5;
       let crc = drop_bit 1 t5;
       b7 \<leftarrow> tb s 0 7;
       b1 \<leftarrow> tb s 0 1;
       let s = s\<lparr>ss_bit := bit_ss b7, es_bit := bit_es b1\<rparr>;
       let s = putb Ann_BIT (''CRC7: 0x'' @ hex_pad 1 crc) s;
       b \<leftarrow> tb s 0 0;
       let s = s\<lparr>ss_bit := bit_ss b, es_bit := bit_es b\<rparr>;
       let s = (if bit_val b = 1 then putb Ann_BIT (''End bit: '' @ str_dec (bit_val b)) s
                else putb Ann_BIT_WARNING
                       (''End bit: '' @ str_dec (bit_val b) @ '' (Warning: Must be 1!)'') s);
       if cmd \<in> {0, 1, 8, 9, 13, 16, 17, 24, 41, 49, 55, 58, 59}
       then Some (s\<lparr>state := HANDLE_CMD cmd,
                     cmd_str := pre @ str_dec cmd @ '' ('' @ cmd_name T s cmd @ '')''\<rparr>)
       else do {
         let s = s\<lparr>state := HANDLE_CMD 999\<rparr>;
         if length t = 6
         then Some (putx cmd (pre @ str_dec cmd @ '':'' @ concat (map (\<lambda>x. '' '' @ hex_pad 2 x) t)) s)
         else None
       }
     }
   }"

text \<open>The handlers of the commands; \<^verbatim>\<open>handle_cmd9\<close> and \<^verbatim>\<open>handle_cmd10\<close> read \<^verbatim>\<open>self.miso\<close>.\<close>

definition handle_cmd0 :: "decoder \<Rightarrow> decoder option" where
  "handle_cmd0 s = Some ((putc (Ann_CMD 0) ''Reset the SD card'' s)\<lparr>state := GET_RESPONSE_R1\<rparr>)"

definition handle_cmd1 :: "decoder \<Rightarrow> decoder option" where
  "handle_cmd1 s0 = do {
     let s = putc (Ann_CMD 1) ''Send HCS info and activate the card init process'' s0;
     a \<leftarrow> arg s;
     let hcs = drop_bit 30 (a AND push_bit 30 1);
     bs \<leftarrow> idx (cmd_token_bits s) (5 - 4);
     b \<leftarrow> idx bs 6;
     let s = s\<lparr>ss_bit := bit_ss b\<rparr>;
     bs \<leftarrow> idx (cmd_token_bits s) (5 - 4);
     b \<leftarrow> idx bs 6;
     let s = s\<lparr>es_bit := bit_es b\<rparr>;
     let s = putb Ann_BIT (''HCS: '' @ str_dec hcs) s;
     Some (s\<lparr>state := GET_RESPONSE_R1\<rparr>)
   }"

definition handle_cmd8 :: "decoder \<Rightarrow> decoder option" where
  "handle_cmd8 s =
     Some ((putc (Ann_CMD 8) ''Send interface condition'' s)
             \<lparr>read_buf := [], read_bits := [], state := GET_RESPONSE_R7\<rparr>)"

definition handle_cmd9 :: "decoder \<Rightarrow> decoder option" where
  "handle_cmd9 s0 = do {
     let s = putc (Ann_CMD 9) ''Ask card to send its card specific data (CSD)'' s0;
     let s = (if length (read_buf s) = 0 then s\<lparr>ss_cmd := ss s\<rparr> else s);
     m \<leftarrow> miso s;
     let s = s\<lparr>read_buf := read_buf s @ [m]\<rparr>;
     if length (read_buf s) < 16 + 4 then Some s
     else do {
       let s = s\<lparr>es_cmd := es s\<rparr>;
       let s = s\<lparr>read_buf := drop 4 (read_buf s)\<rparr>;
       let s = putx (Ann_CMD 9) (''CSD: '' @ repr_list (read_buf s)) s;
       Some (s\<lparr>read_buf := [], state := IDLE\<rparr>)
     }
   }"

definition handle_cmd10 :: "decoder \<Rightarrow> decoder option" where
  "handle_cmd10 s0 = do {
     let s = putc (Ann_CMD 10) ''Ask card to send its card identification (CID)'' s0;
     m \<leftarrow> miso s;
     let s = s\<lparr>read_buf := read_buf s @ [m]\<rparr>;
     if length (read_buf s) < 16 then Some s
     else do {
       let s = putx (Ann_CMD 10) (''CID: '' @ repr_list (read_buf s)) s;
       Some (s\<lparr>read_buf := [], state := GET_RESPONSE_R1\<rparr>)
     }
   }"

definition handle_cmd13 :: "decoder \<Rightarrow> decoder option" where
  "handle_cmd13 s =
     Some ((putc (Ann_CMD 13) ''Ask card to send its status register'' s)
             \<lparr>read_buf := [], state := GET_RESPONSE_R2\<rparr>)"

definition handle_cmd16 :: "decoder \<Rightarrow> decoder option" where
  "handle_cmd16 s0 = do {
     a \<leftarrow> arg s0;
     let s = s0\<lparr>blocklen := a\<rparr>;
     let s = putc (Ann_CMD 16)
               (''Set the block length to '' @ str_dec (blocklen s) @ '' bytes'') s;
     Some (s\<lparr>state := GET_RESPONSE_R1\<rparr>)
   }"

definition handle_cmd17 :: "decoder \<Rightarrow> decoder option" where
  "handle_cmd17 s0 = do {
     a \<leftarrow> arg s0;
     let s = putc (Ann_CMD 17) (''Read a block from address 0x'' @ hex_pad 4 a) s0;
     Some (s\<lparr>is_cmd17 := True, state := GET_RESPONSE_R1\<rparr>)
   }"

definition handle_cmd24 :: "decoder \<Rightarrow> decoder option" where
  "handle_cmd24 s0 = do {
     a \<leftarrow> arg s0;
     let s = putc (Ann_CMD 24) (''Write a block to address 0x'' @ hex_pad 4 a) s0;
     Some (s\<lparr>is_cmd24 := True, state := GET_RESPONSE_R1\<rparr>)
   }"

definition handle_cmd49 :: "decoder \<Rightarrow> decoder option" where
  "handle_cmd49 s = Some (s\<lparr>state := GET_RESPONSE_R1\<rparr>)"

definition handle_cmd55 :: "decoder \<Rightarrow> decoder option" where
  "handle_cmd55 s =
     Some ((putc (Ann_CMD 55) ''Next command is an application-specific command'' s)
             \<lparr>is_acmd := True, state := GET_RESPONSE_R1\<rparr>)"

definition handle_cmd58 :: "decoder \<Rightarrow> decoder option" where
  "handle_cmd58 s =
     Some ((putc (Ann_CMD 58) ''Read the OCR register'' s)
             \<lparr>read_buf := [], read_bits := [], state := GET_RESPONSE_R3\<rparr>)"

definition handle_cmd59 :: "decoder \<Rightarrow> decoder option" where
  "handle_cmd59 s0 = do {
     a \<leftarrow> arg s0;
     let crc_on_off = a AND push_bit 0 1;
     let w = (if crc_on_off = 1 then ''on'' else ''off'');
     let s = putc (Ann_CMD 59) (''Turn the SD card CRC option '' @ w) s0;
     Some (s\<lparr>state := GET_RESPONSE_R1\<rparr>)
   }"

definition handle_acmd41 :: "decoder \<Rightarrow> decoder option" where
  "handle_acmd41 s =
     Some ((putc (Ann_ACMD 41) ''Send HCS info and activate the card init process'' s)
             \<lparr>state := GET_RESPONSE_R1\<rparr>)"

definition handle_cmd999 :: "decoder \<Rightarrow> decoder option" where
  "handle_cmd999 s = Some (s\<lparr>state := GET_RESPONSE_R1\<rparr>)"

text \<open>
  \<^verbatim>\<open>getattr(self, 'handle_%scmd%s' % (a, cmdstr))\<close>: the method of that name, and
  \<open>None\<close> where the class has none (the lookup raises).
\<close>

definition handle_cmd_lookup :: "bool \<Rightarrow> nat \<Rightarrow> (decoder \<Rightarrow> decoder option) option" where
  "handle_cmd_lookup a n =
     (if a then (if n = 41 then Some handle_acmd41 else None)
      else if n = 0 then Some handle_cmd0
      else if n = 1 then Some handle_cmd1
      else if n = 8 then Some handle_cmd8
      else if n = 9 then Some handle_cmd9
      else if n = 10 then Some handle_cmd10
      else if n = 13 then Some handle_cmd13
      else if n = 16 then Some handle_cmd16
      else if n = 17 then Some handle_cmd17
      else if n = 24 then Some handle_cmd24
      else if n = 49 then Some handle_cmd49
      else if n = 55 then Some handle_cmd55
      else if n = 58 then Some handle_cmd58
      else if n = 59 then Some handle_cmd59
      else if n = 999 then Some handle_cmd999
      else None)"

text \<open>The local function \<^verbatim>\<open>putbit\<close> of the R1 and R2 handlers.\<close>

definition putbit :: "nat \<Rightarrow> string \<Rightarrow> decoder \<Rightarrow> decoder option" where
  "putbit b txt s = do {
     m \<leftarrow> miso_bits s;
     e \<leftarrow> idx m b;
     Some (putb Ann_BIT txt (s\<lparr>ss_bit := bit_ss e, es_bit := bit_es e\<rparr>))
   }"

text \<open>The test \<^verbatim>\<open>res & (1 << k)\<close> of a Python conditional expression.\<close>

definition bit_set :: "nat \<Rightarrow> nat \<Rightarrow> bool" where
  "bit_set res k = (res AND push_bit k 1 \<noteq> 0)"

definition handle_response_r1 :: "nat \<Rightarrow> decoder \<Rightarrow> decoder option" where
  "handle_response_r1 res s0 = do {
     m \<leftarrow> miso_bits s0;
     b7 \<leftarrow> idx m 7;
     b0 \<leftarrow> idx m 0;
     let s = s0\<lparr>ss_cmd := bit_ss b7, es_cmd := bit_es b0\<rparr>;
     let s = putx Ann_R1 (''R1: 0x'' @ hex_pad 2 res) s;
     s \<leftarrow> putbit 0 (''Card is '' @ (if bit_set res 0 then [] else ''not '') @ ''in idle state'') s;
     s \<leftarrow> putbit 1 (''Erase sequence '' @ (if bit_set res 1 then [] else ''not '') @ ''cleared'') s;
     s \<leftarrow> putbit 2 ((if bit_set res 2 then ''I'' else ''No i'') @ ''llegal command detected'') s;
     s \<leftarrow> putbit 3 (''CRC check of last command ''
                       @ (if bit_set res 3 then ''failed'' else ''was successful'')) s;
     s \<leftarrow> putbit 4 ((if bit_set res 4 then ''E'' else ''No e'')
                       @ ''rror in the sequence of erase commands'') s;
     s \<leftarrow> putbit 5 ((if bit_set res 5 then ''M'' else ''No m'')
                       @ ''isaligned address used in command'') s;
     s \<leftarrow> putbit 6 (''Command argument '' @ (if bit_set res 6 then [] else ''not '')
                       @ ''outside allowed range'') s;
     s \<leftarrow> putbit 7 ''Bit 7 (always 0)'' s;
     let s = (if is_cmd17 s then s\<lparr>state := HANDLE_DATA_BLOCK_CMD17\<rparr> else s);
     let s = (if is_cmd24 s then s\<lparr>state := HANDLE_DATA_BLOCK_CMD24\<rparr> else s);
     Some s
   }"

definition handle_response_r1b :: "nat \<Rightarrow> decoder \<Rightarrow> decoder option" where
  "handle_response_r1b res s = Some s"

definition handle_response_r2 :: "nat \<Rightarrow> decoder \<Rightarrow> decoder option" where
  "handle_response_r2 res s0 = do {
     let s = s0\<lparr>es_cmd := es s0\<rparr>;
     let s = s\<lparr>read_buf := read_buf s @ [res]\<rparr>;
     if length (read_buf s) = 1
     then do {
       s \<leftarrow> handle_response_r1 res s;
       Some (putx Ann_R2 (''R2: 0x'' @ hex_pad 2 res) s)
     }
     else do {
       r1 \<leftarrow> idx (read_buf s) 0;
       status \<leftarrow> idx (read_buf s) 1;
       let s = putx Ann_R2
                 (''R2: [R1: 0x'' @ hex_pad 2 r1 @ '', Status: 0x'' @ hex_pad 2 status @ '']'') s;
       s \<leftarrow> putbit 0 (''Card is '' @ (if bit_set status 0 then [] else ''un'') @ ''locked'') s;
       s \<leftarrow> putbit 1 ((if bit_set status 1 then ''A'' else ''No a'')
                         @ ''ttempt to erase a write-protected sector | ''
                         @ (if bit_set status 1 then ''E'' else ''No e'')
                         @ ''rror in card lock/unlock operation'') s;
       s \<leftarrow> putbit 2 ((if bit_set status 2 then ''G'' else ''No g'')
                         @ ''eneral or unknown error'') s;
       s \<leftarrow> putbit 3 ((if bit_set status 3 then ''I'' else ''No i'')
                         @ ''nternal card controller error'') s;
       s \<leftarrow> putbit 4 ((if bit_set status 4 then [] else ''No '')
                         @ ''ECC failure to correct data'') s;
       s \<leftarrow> putbit 5 ((if bit_set res 5 then ''W'' else ''No w'') @ ''rite protect violation'') s;
       s \<leftarrow> putbit 6 ((if bit_set res 6 then ''I'' else ''No i'')
                         @ ''nvalid selection for erase, sectors or groups'') s;
       s \<leftarrow> putbit 7 ((if bit_set status 7 then ''O'' else ''No o'') @ ''ut of range | ''
                         @ (if bit_set status 7 then ''C'' else ''No C'') @ ''SD overwrite'') s;
       Some (s\<lparr>state := IDLE, read_buf := []\<rparr>)
     }
   }"

text \<open>
  The local function \<^verbatim>\<open>get_bit\<close> of the R3 and R7 handlers; its callers pass bit
  numbers from 0 to 31, for which the byte index \<^verbatim>\<open>(5 - (b // 8)) - 1\<close> is not negative.
\<close>

definition get_bit :: "decoder \<Rightarrow> nat \<Rightarrow> sbit option" where
  "get_bit s b = do {
     bs \<leftarrow> idx (read_bits s) ((5 - b div 8) - 1);
     idx bs (b mod 8)
   }"

text \<open>
  One supported-voltage bit of the OCR, and the loop of the R3 handler over the table
  \<^verbatim>\<open>voltages\<close> in the order of its entries.
\<close>

definition r3_voltage :: "nat \<times> string \<Rightarrow> decoder \<Rightarrow> decoder option" where
  "r3_voltage kv s = do {
     b \<leftarrow> get_bit s (fst kv);
     let s = s\<lparr>ss_bit := bit_ss b, es_bit := bit_es b\<rparr>;
     Some (putb Ann_BIT (snd kv @ ''V '' @ (if bit_val b \<noteq> 0 then [] else ''not '')
                          @ ''supported'') s)
   }"

fun r3_voltages :: "(nat \<times> string) list \<Rightarrow> decoder \<Rightarrow> decoder option" where
  "r3_voltages [] s = Some s"
| "r3_voltages (kv # kvs) s = do { s \<leftarrow> r3_voltage kv s; r3_voltages kvs s }"

definition voltages :: "(nat \<times> string) list" where
  "voltages = [(15, ''2.7-2.8''), (16, ''2.8-2.9''), (17, ''2.9-3.0''), (18, ''3.0-3.1''),
     (19, ''3.1-3.2''), (20, ''3.2-3.3''), (21, ''3.3-3.4''), (22, ''3.4-3.5''),
     (23, ''3.5-3.6'')]"

definition handle_response_r3 :: "nat \<Rightarrow> decoder \<Rightarrow> decoder option" where
  "handle_response_r3 res s0 = do {
     let s = s0\<lparr>es_cmd := es s0\<rparr>;
     let s = s\<lparr>read_buf := read_buf s @ [res]\<rparr>;
     m \<leftarrow> miso_bits s;
     let s = s\<lparr>read_bits := read_bits s @ [m]\<rparr>;
     if length (read_buf s) = 1
     then do {
       s \<leftarrow> handle_response_r1 res s;
       Some (putx Ann_R3 (''R1: 0x'' @ hex_pad 2 res) s)
     }
     else if length (read_buf s) < 5 then Some s
     else do {
       r1 \<leftarrow> idx (read_buf s) 0;
       o1 \<leftarrow> idx (read_buf s) 1;
       o2 \<leftarrow> idx (read_buf s) 2;
       o3 \<leftarrow> idx (read_buf s) 3;
       o4 \<leftarrow> idx (read_buf s) 4;
       let ocr = push_bit 24 o1 OR push_bit 16 o2 OR push_bit 8 o3 OR o4;
       let s = putx Ann_R3
                 (''R3: [R1: 0x'' @ hex_pad 2 r1 @ '', OCR: 0x'' @ hex_pad 8 ocr @ '']'') s;
       b \<leftarrow> get_bit s 31;
       let power_up_status = bit_val b;
       let s = s\<lparr>ss_bit := bit_ss b, es_bit := bit_es b\<rparr>;
       let s = putb Ann_BIT (''Card has '' @ (if power_up_status \<noteq> 0 then [] else ''not '')
                              @ ''finished the power up routine'') s;
       b \<leftarrow> get_bit s 30;
       let s = s\<lparr>ss_bit := bit_ss b, es_bit := bit_es b\<rparr>;
       let s = putb Ann_BIT
                 (''Card capacity is ''
                  @ (if power_up_status \<noteq> 0
                     then (if bit_val b \<noteq> 0 then ''SDHC or SDXC'' else ''SDSC'')
                     else ''unknown'')) s;
       b \<leftarrow> get_bit s 29;
       let uhs2 = bit_val b;
       let s = s\<lparr>ss_bit := bit_ss b, es_bit := bit_es b\<rparr>;
       let s = putb Ann_BIT (''UHS-II interface '' @ (if uhs2 \<noteq> 0 then [] else ''not '')
                              @ ''supported'') s;
       b \<leftarrow> get_bit s 28;
       let s = s\<lparr>ss_bit := bit_ss b, es_bit := bit_es b\<rparr>;
       let s = putb Ann_BIT ''Reserved'' s;
       b \<leftarrow> get_bit s 27;
       let s = s\<lparr>ss_bit := bit_ss b, es_bit := bit_es b\<rparr>;
       let s = putb Ann_BIT (''Over 2TB is '' @ (if bit_val b \<noteq> 0 then [] else ''not '')
                              @ ''supported'') s;
       b26 \<leftarrow> get_bit s 26;
       b25 \<leftarrow> get_bit s 25;
       let s = s\<lparr>ss_bit := bit_ss b26, es_bit := bit_es b25\<rparr>;
       let s = putb Ann_BIT ''Reserved'' s;
       b \<leftarrow> get_bit s 24;
       let s = s\<lparr>ss_bit := bit_ss b, es_bit := bit_es b\<rparr>;
       let s = putb Ann_BIT (''Switching to 1.8V '' @ (if bit_val b \<noteq> 0 then [] else ''not '')
                              @ ''accepted'') s;
       s \<leftarrow> (if uhs2 \<noteq> 0 then Some s
              else do {
                s \<leftarrow> r3_voltages voltages s;
                b14 \<leftarrow> get_bit s 14;
                b8 \<leftarrow> get_bit s 8;
                let s = s\<lparr>ss_bit := bit_ss b14, es_bit := bit_es b8\<rparr>;
                let s = putb Ann_BIT ''Reserved'' s;
                b \<leftarrow> get_bit s 7;
                let s = s\<lparr>ss_bit := bit_ss b, es_bit := bit_es b\<rparr>;
                let s = putb Ann_BIT ''Reserved'' s;
                b6 \<leftarrow> get_bit s 6;
                b0 \<leftarrow> get_bit s 0;
                let s = s\<lparr>ss_bit := bit_ss b6, es_bit := bit_es b0\<rparr>;
                Some (putb Ann_BIT ''Reserved'' s)
              });
       Some (s\<lparr>state := IDLE, read_buf := [], read_bits := []\<rparr>)
     }
   }"

text \<open>The local function \<^verbatim>\<open>decode_voltage\<close> of the R7 handler.\<close>

definition decode_voltage :: "nat \<Rightarrow> string" where
  "decode_voltage v =
     (if v = 0 then ''Not Defined''
      else if v = 1 then ''2.7-3.6V''
      else if v = 2 then ''Reserved for Low Voltage Range''
      else if v = 4 then ''Reserved''
      else if v = 8 then ''Reserved''
      else ''Not Defined'')"

definition handle_response_r7 :: "nat \<Rightarrow> decoder \<Rightarrow> decoder option" where
  "handle_response_r7 res s0 = do {
     let s = s0\<lparr>es_cmd := es s0\<rparr>;
     let s = s\<lparr>read_buf := read_buf s @ [res]\<rparr>;
     m \<leftarrow> miso_bits s;
     let s = s\<lparr>read_bits := read_bits s @ [m]\<rparr>;
     if length (read_buf s) = 1
     then do {
       s \<leftarrow> handle_response_r1 res s;
       Some (putx Ann_R7 (''R1: 0x'' @ hex_pad 2 res) s)
     }
     else if length (read_buf s) < 5 then Some s
     else do {
       r1 \<leftarrow> idx (read_buf s) 0;
       let version = drop_bit 4 r1;
       v3 \<leftarrow> idx (read_buf s) 3;
       let voltage = decode_voltage v3;
       pattern \<leftarrow> idx (read_buf s) 4;
       let s = putx Ann_R7
                 (''R7: [R1: 0x'' @ hex_pad 2 r1 @ '', Command Version: 0x'' @ hex_pad 1 version
                  @ '', Voltage Accepted: '' @ voltage @ '', Check Pattern: 0x''
                  @ hex_pad 2 pattern @ '']'') s;
       b31 \<leftarrow> get_bit s 31;
       b28 \<leftarrow> get_bit s 28;
       let s = s\<lparr>ss_bit := bit_ss b31, es_bit := bit_es b28\<rparr>;
       let s = putb Ann_BIT (''Command Version: 0x'' @ hex_pad 1 version) s;
       b27 \<leftarrow> get_bit s 27;
       b12 \<leftarrow> get_bit s 12;
       let s = s\<lparr>ss_bit := bit_ss b27, es_bit := bit_es b12\<rparr>;
       let s = putb Ann_BIT ''Reserved'' s;
       b11 \<leftarrow> get_bit s 11;
       b8 \<leftarrow> get_bit s 8;
       let s = s\<lparr>ss_bit := bit_ss b11, es_bit := bit_es b8\<rparr>;
       let s = putb Ann_BIT (''Voltage Accepted: '' @ voltage) s;
       b7 \<leftarrow> get_bit s 7;
       b0 \<leftarrow> get_bit s 0;
       let s = s\<lparr>ss_bit := bit_ss b7, es_bit := bit_es b0\<rparr>;
       let s = putb Ann_BIT (''Check Pattern: 0x'' @ hex_pad 2 pattern) s;
       Some (s\<lparr>state := IDLE, read_buf := [], read_bits := []\<rparr>)
     }
   }"

definition handle_data_cmd17 :: "nat \<Rightarrow> decoder \<Rightarrow> decoder option" where
  "handle_data_cmd17 mi s0 =
     (if cmd17_start_token_found s0
      then do {
        let s = (if length (read_buf s0) = 0
                 then (let s1 = s0\<lparr>ss_data := Some (ss s0)\<rparr>
                       in if blocklen s1 = 0 then s1\<lparr>blocklen := 512\<rparr> else s1)
                 else s0);
        let s = s\<lparr>read_buf := read_buf s @ [mi]\<rparr>;
        if length (read_buf s) < blocklen s then Some s
        else if length (read_buf s) = blocklen s
        then do {
          let s = s\<lparr>es_data := Some (es s)\<rparr>;
          sd \<leftarrow> ss_data s;
          ed \<leftarrow> es_data s;
          Some (put sd ed (Ann_CMD 17) (''Block data: '' @ repr_list (read_buf s)) s)
        }
        else if length (read_buf s) = blocklen s + 1
        then Some (s\<lparr>ss_crc := Some (ss s)\<rparr>)
        else if length (read_buf s) = blocklen s + 2
        then do {
          let s = s\<lparr>es_crc := Some (es s)\<rparr>;
          sc \<leftarrow> ss_crc s;
          ec \<leftarrow> es_crc s;
          let s = put sc ec (Ann_CMD 17) ''CRC'' s;
          Some (s\<lparr>state := IDLE, read_buf := [], cmd17_start_token_found := False,
                   is_cmd17 := False\<rparr>)
        }
        else Some s
      }
      else if mi = 0xfe
      then Some ((put (ss s0) (es s0) (Ann_CMD 17) ''Start Block'' s0)
                   \<lparr>cmd17_start_token_found := True\<rparr>)
      else Some s0)"

definition handle_data_cmd24 :: "nat \<Rightarrow> decoder \<Rightarrow> decoder option" where
  "handle_data_cmd24 mo s0 =
     (if cmd24_start_token_found s0
      then do {
        let s = (if length (read_buf s0) = 0
                 then (let s1 = s0\<lparr>ss_data := Some (ss s0)\<rparr>
                       in if blocklen s1 = 0 then s1\<lparr>blocklen := 512\<rparr> else s1)
                 else s0);
        let s = s\<lparr>read_buf := read_buf s @ [mo]\<rparr>;
        if length (read_buf s) < blocklen s then Some s
        else do {
          let s = s\<lparr>es_data := Some (es s)\<rparr>;
          sd \<leftarrow> ss_data s;
          ed \<leftarrow> es_data s;
          let s = put sd ed (Ann_CMD 24) (''Block data: '' @ repr_list (read_buf s)) s;
          Some (s\<lparr>state := DATA_RESPONSE, read_buf := [], cmd24_start_token_found := False\<rparr>)
        }
      }
      else if mo = 0xfe
      then Some ((put (ss s0) (es s0) (Ann_CMD 24) ''Start Block'' s0)
                   \<lparr>cmd24_start_token_found := True\<rparr>)
      else Some s0)"

definition handle_data_response :: "nat \<Rightarrow> decoder \<Rightarrow> decoder option" where
  "handle_data_response mi0 s0 =
     (let mi = mi0 AND 0x1f in
      if mi AND 0x11 \<noteq> 0x01 then Some s0
      else do {
        m \<leftarrow> miso_bits s0;
        m7 \<leftarrow> idx m 7;
        m5 \<leftarrow> idx m 5;
        let s = put (bit_ss m7) (bit_es m5) Ann_BIT ''Don't care'' s0;
        m4 \<leftarrow> idx m 4;
        let s = put (bit_ss m4) (bit_es m4) Ann_BIT ''Always 0'' s;
        s \<leftarrow> (if mi = 0x05
               then do { m3 \<leftarrow> idx m 3; m1 \<leftarrow> idx m 1;
                         Some (put (bit_ss m3) (bit_es m1) Ann_BIT ''Data accepted'' s) }
               else if mi = 0x0b
               then do { m3 \<leftarrow> idx m 3; m1 \<leftarrow> idx m 1;
                         Some (put (bit_ss m3) (bit_es m1) Ann_BIT ''Data rejected (CRC error)'' s) }
               else if mi = 0x0d
               then do { m3 \<leftarrow> idx m 3; m1 \<leftarrow> idx m 1;
                         Some (put (bit_ss m3) (bit_es m1) Ann_BIT ''Data rejected (write error)'' s) }
               else Some s);
        m0 \<leftarrow> idx m 0;
        let s = put (bit_ss m0) (bit_es m0) Ann_BIT ''Always 1'' s;
        let cls = (if is_cmd24 s then Some (Ann_CMD 24) else None);
        let s = (case cls of None \<Rightarrow> s | Some c \<Rightarrow> put (ss s) (es s) c ''Data Response'' s);
        if is_cmd24 s
        then Some (s\<lparr>state := WAIT_WHILE_CARD_BUSY, busy_first_byte := True\<rparr>)
        else Some (s\<lparr>state := IDLE\<rparr>)
      })"

definition wait_while_busy :: "nat \<Rightarrow> decoder \<Rightarrow> decoder option" where
  "wait_while_busy mi s0 =
     (if mi \<noteq> 0x00
      then (let cls = (if is_cmd24 s0 then Some (Ann_CMD 24) else None);
                s = (case cls of None \<Rightarrow> s0
                     | Some c \<Rightarrow> (put (ss_busy s0) (es_busy s0) c ''Card is busy'' s0)
                                   \<lparr>is_cmd24 := False\<rparr>)
            in Some (s\<lparr>state := IDLE\<rparr>))
      else if busy_first_byte s0
      then Some (s0\<lparr>ss_busy := ss s0, busy_first_byte := False\<rparr>)
      else Some (s0\<lparr>es_busy := es s0\<rparr>))"

text \<open>
  \<^verbatim>\<open>decode(self, ss, es, data)\<close> with \<^verbatim>\<open>data = (ptype, data1, data2)\<close>. The chain of
  comparisons on \<^verbatim>\<open>self.state\<close> is the case distinction on the phase; the branch for
  \<^verbatim>\<open>self.state.startswith('HANDLE CMD')\<close> takes the digits after the prefix, and the
  branch for \<^verbatim>\<open>startswith('GET RESPONSE')\<close> that comes after those of R2, R3 and R7 is
  left with R1.
\<close>

definition decode :: "names \<Rightarrow> nat \<Rightarrow> nat \<Rightarrow> packet \<Rightarrow> decoder \<Rightarrow> decoder option" where
  "decode T ss_v es_v data s0 =
     (case data of
        BITS d1 d2 \<Rightarrow> Some (s0\<lparr>mosi_bits := Some d1, miso_bits := Some d2\<rparr>)
      | CS_CHANGE d1 d2 \<Rightarrow>
          (if d2 = Some 0
           then Some (s0\<lparr>state := IDLE, read_buf := [], read_bits := [], is_cmd17 := False,
                         cmd17_start_token_found := False, is_cmd24 := False,
                         cmd24_start_token_found := False, busy_first_byte := False\<rparr>)
           else Some s0)
      | TRANSFER \<Rightarrow> Some s0
      | DATA mo mi \<Rightarrow>
          (let s = s0\<lparr>ss := ss_v, es := es_v\<rparr> in
           case state s of
             IDLE \<Rightarrow>
               (if mo = 0xff then Some s
                else handle_command_token T mo mi (s\<lparr>state := GET_COMMAND_TOKEN\<rparr>))
           | GET_COMMAND_TOKEN \<Rightarrow> handle_command_token T mo mi s
           | HANDLE_CMD n \<Rightarrow> do {
               let s = s\<lparr>miso := Some mi, mosi := Some mo\<rparr>;
               handle_cmd \<leftarrow> handle_cmd_lookup (is_acmd s) n;
               s \<leftarrow> handle_cmd s;
               let s = s\<lparr>cmd_token := [], cmd_token_bits := []\<rparr>;
               Some (if is_acmd s \<and> n \<noteq> 55 then s\<lparr>is_acmd := False\<rparr> else s)
             }
           | GET_RESPONSE_R2 \<Rightarrow> handle_response_r2 mi s
           | GET_RESPONSE_R3 \<Rightarrow> handle_response_r3 mi s
           | GET_RESPONSE_R7 \<Rightarrow> handle_response_r7 mi s
           | GET_RESPONSE_R1 \<Rightarrow>
               (if mi = 0xff then Some s
                else handle_response_r1 mi (s\<lparr>state := IDLE\<rparr>))
           | HANDLE_DATA_BLOCK_CMD17 \<Rightarrow> handle_data_cmd17 mi s
           | HANDLE_DATA_BLOCK_CMD24 \<Rightarrow> handle_data_cmd24 mo s
           | DATA_RESPONSE \<Rightarrow> handle_data_response mi s
           | WAIT_WHILE_CARD_BUSY \<Rightarrow> wait_while_busy mi s))"

text \<open>
  A decoding session: the packets, each with its sample range, are handed to \<^verbatim>\<open>decode\<close>
  in order; a call that raises ends the session.
\<close>

fun run :: "names \<Rightarrow> (nat \<times> nat \<times> packet) list \<Rightarrow> decoder \<Rightarrow> decoder option" where
  "run T [] s = Some s"
| "run T (e # evs) s =
     (case decode T (fst e) (fst (snd e)) (snd (snd e)) s of
        None \<Rightarrow> None
      | Some s' \<Rightarrow> run T evs s')"

section \<open>Example inputs\<close>

text \<open>
  The bit array of a byte with bits 0 and 2 set: entry \<open>i\<close> is bit \<open>i\<close> of the byte, the
  most significant bit being the first on the wire.
\<close>

definition bits_example :: bits where
  "bits_example = [(1, 70, 80), (0, 60, 70), (1, 50, 60), (0, 40, 50),
                   (0, 30, 40), (0, 20, 30), (0, 10, 20), (0, 0, 10)]"

text \<open>The bit arrays of the bytes 0x40, 0x00 and 0x95, and of 0xff for the idle line.\<close>

definition bits_0x40 :: bits where
  "bits_0x40 = [(0, 70, 80), (0, 60, 70), (0, 50, 60), (0, 40, 50),
                (0, 30, 40), (0, 20, 30), (1, 10, 20), (0, 0, 10)]"

definition bits_0x00 :: bits where
  "bits_0x00 = [(0, 70, 80), (0, 60, 70), (0, 50, 60), (0, 40, 50),
                (0, 30, 40), (0, 20, 30), (0, 10, 20), (0, 0, 10)]"

definition bits_0x95 :: bits where
  "bits_0x95 = [(1, 70, 80), (0, 60, 70), (1, 50, 60), (0, 40, 50),
                (1, 30, 40), (0, 20, 30), (0, 10, 20), (1, 0, 10)]"

definition bits_0xff :: bits where
  "bits_0xff = [(1, 70, 80), (1, 60, 70), (1, 50, 60), (1, 40, 50),
                (1, 30, 40), (1, 20, 30), (1, 10, 20), (1, 0, 10)]"

text \<open>
  An excerpt of the tables of command names, for the examples: the functions take the
  tables as a parameter, and the theorems hold for every pair of tables.
\<close>

definition names_example :: names where
  "names_example = \<lparr> cmd_names = [0 \<mapsto> ''GO_IDLE_STATE'', 55 \<mapsto> ''APP_CMD'', 58 \<mapsto> ''READ_OCR''],
                       acmd_names = [41 \<mapsto> ''SD_SEND_OP_COND''] \<rparr>"

text \<open>
  The packets of the SPI layer for byte number \<open>k\<close> of a session, at 80 samples a byte
  and 10 samples a bit: the bit arrays of both lines, with entry \<open>i\<close> for bit \<open>i\<close> of the
  byte and the most significant bit first in time, then the bytes.
\<close>

definition bit_at :: "nat \<Rightarrow> nat \<Rightarrow> nat \<Rightarrow> sbit" where
  "bit_at v t i = ((v div 2 ^ i) mod 2, t + 10 * (7 - i), t + 10 * (8 - i))"

definition byte_bits :: "nat \<Rightarrow> nat \<Rightarrow> bits" where
  "byte_bits v t = map (bit_at v t) [0, 1, 2, 3, 4, 5, 6, 7]"

definition transfer :: "nat \<Rightarrow> nat \<Rightarrow> nat \<Rightarrow> (nat \<times> nat \<times> packet) list" where
  "transfer k mo mi =
     [(80 * k, 80 * k + 80, BITS (byte_bits mo (80 * k)) (byte_bits mi (80 * k))),
      (80 * k, 80 * k + 80, DATA mo mi)]"

text \<open>
  A session: the command token of CMD58 with argument 0, one more byte, and the five
  bytes 0xc0 0x08 0x00 0x00 0x00 from the card.
\<close>

definition r3_session :: "(nat \<times> nat \<times> packet) list" where
  "r3_session =
     transfer 0 0x7a 0xff @ transfer 1 0x00 0xff @ transfer 2 0x00 0xff
     @ transfer 3 0x00 0xff @ transfer 4 0x00 0xff @ transfer 5 0xfd 0xff
     @ transfer 6 0xff 0xff
     @ transfer 7 0xff 0xc0 @ transfer 8 0xff 0x08 @ transfer 9 0xff 0x00
     @ transfer 10 0xff 0x00 @ transfer 11 0xff 0x00"

text \<open>The texts of the annotations of a session, and its last phase.\<close>

definition texts :: "decoder option \<Rightarrow> string list" where
  "texts r = (case r of None \<Rightarrow> [] | Some s \<Rightarrow> map (\<lambda>a. snd (snd (snd a))) (annotations s))"

definition last_phase :: "decoder option \<Rightarrow> phase option" where
  "last_phase r = map_option state r"

definition anns :: "decoder option \<Rightarrow> ann list" where
  "anns r = (case r of None \<Rightarrow> [] | Some s \<Rightarrow> annotations s)"

section \<open>Properties of results\<close>

text \<open>
  \<open>holds_after r Q\<close>: if the call returns, \<open>Q\<close> holds of what it returns. The phases of
  a write transaction are those from the data block of CMD24 to the end of the busy
  wait; \<open>write_phase_inv\<close> says that the decoder is in one of them only with the flag
  \<^verbatim>\<open>is_cmd24\<close> set.
\<close>

definition holds_after :: "'a option \<Rightarrow> ('a \<Rightarrow> bool) \<Rightarrow> bool" where
  "holds_after r Q = (case r of None \<Rightarrow> True | Some v \<Rightarrow> Q v)"

definition write_phase_inv :: "decoder \<Rightarrow> bool" where
  "write_phase_inv s =
     (state s \<in> {HANDLE_DATA_BLOCK_CMD24, DATA_RESPONSE, WAIT_WHILE_CARD_BUSY} \<longrightarrow> is_cmd24 s)"

section \<open>Annotations of response tokens\<close>

text \<open>
  The annotations that \<^verbatim>\<open>handle_response_r1\<close> puts for a byte \<open>res\<close> with the bit array
  \<open>m\<close>: the R1 annotation over the byte, then one annotation for each bit from 0 to 7.
\<close>

definition r1_annotations :: "bits \<Rightarrow> nat \<Rightarrow> ann list" where
  "r1_annotations m res =
     [(bit_ss (m ! 7), bit_es (m ! 0), Ann_R1, ''R1: 0x'' @ hex_pad 2 res),
      (bit_ss (m ! 0), bit_es (m ! 0), Ann_BIT,
         ''Card is '' @ (if bit_set res 0 then [] else ''not '') @ ''in idle state''),
      (bit_ss (m ! 1), bit_es (m ! 1), Ann_BIT,
         ''Erase sequence '' @ (if bit_set res 1 then [] else ''not '') @ ''cleared''),
      (bit_ss (m ! 2), bit_es (m ! 2), Ann_BIT,
         (if bit_set res 2 then ''I'' else ''No i'') @ ''llegal command detected''),
      (bit_ss (m ! 3), bit_es (m ! 3), Ann_BIT,
         ''CRC check of last command '' @ (if bit_set res 3 then ''failed'' else ''was successful'')),
      (bit_ss (m ! 4), bit_es (m ! 4), Ann_BIT,
         (if bit_set res 4 then ''E'' else ''No e'') @ ''rror in the sequence of erase commands''),
      (bit_ss (m ! 5), bit_es (m ! 5), Ann_BIT,
         (if bit_set res 5 then ''M'' else ''No m'') @ ''isaligned address used in command''),
      (bit_ss (m ! 6), bit_es (m ! 6), Ann_BIT,
         ''Command argument '' @ (if bit_set res 6 then [] else ''not '') @ ''outside allowed range''),
      (bit_ss (m ! 7), bit_es (m ! 7), Ann_BIT, ''Bit 7 (always 0)'')]"

text \<open>
  The bit annotations that \<^verbatim>\<open>handle_response_r3\<close> puts for the OCR, given the bit arrays
  \<open>M1\<close> to \<open>M4\<close> of the second to the fifth byte of the response: bit \<open>b\<close> of the OCR is
  entry \<open>b mod 8\<close> of the array of byte \<open>4 - b div 8\<close> of the response.
\<close>

definition voltage_annotation :: "sbit \<Rightarrow> string \<Rightarrow> ann" where
  "voltage_annotation b v =
     (bit_ss b, bit_es b, Ann_BIT,
      v @ ''V '' @ (if bit_val b \<noteq> 0 then [] else ''not '') @ ''supported'')"

definition ocr_annotations :: "bits \<Rightarrow> bits \<Rightarrow> bits \<Rightarrow> bits \<Rightarrow> ann list" where
  "ocr_annotations M1 M2 M3 M4 =
     [(bit_ss (M1 ! 7), bit_es (M1 ! 7), Ann_BIT,
         ''Card has '' @ (if bit_val (M1 ! 7) \<noteq> 0 then [] else ''not '')
           @ ''finished the power up routine''),
      (bit_ss (M1 ! 6), bit_es (M1 ! 6), Ann_BIT,
         ''Card capacity is ''
           @ (if bit_val (M1 ! 7) \<noteq> 0
              then (if bit_val (M1 ! 6) \<noteq> 0 then ''SDHC or SDXC'' else ''SDSC'')
              else ''unknown'')),
      (bit_ss (M1 ! 5), bit_es (M1 ! 5), Ann_BIT,
         ''UHS-II interface '' @ (if bit_val (M1 ! 5) \<noteq> 0 then [] else ''not '') @ ''supported''),
      (bit_ss (M1 ! 4), bit_es (M1 ! 4), Ann_BIT, ''Reserved''),
      (bit_ss (M1 ! 3), bit_es (M1 ! 3), Ann_BIT,
         ''Over 2TB is '' @ (if bit_val (M1 ! 3) \<noteq> 0 then [] else ''not '') @ ''supported''),
      (bit_ss (M1 ! 2), bit_es (M1 ! 1), Ann_BIT, ''Reserved''),
      (bit_ss (M1 ! 0), bit_es (M1 ! 0), Ann_BIT,
         ''Switching to 1.8V '' @ (if bit_val (M1 ! 0) \<noteq> 0 then [] else ''not '') @ ''accepted'')]
     @ (if bit_val (M1 ! 5) \<noteq> 0 then []
        else [voltage_annotation (M3 ! 7) ''2.7-2.8'', voltage_annotation (M2 ! 0) ''2.8-2.9'',
              voltage_annotation (M2 ! 1) ''2.9-3.0'', voltage_annotation (M2 ! 2) ''3.0-3.1'',
              voltage_annotation (M2 ! 3) ''3.1-3.2'', voltage_annotation (M2 ! 4) ''3.2-3.3'',
              voltage_annotation (M2 ! 5) ''3.3-3.4'', voltage_annotation (M2 ! 6) ''3.4-3.5'',
              voltage_annotation (M2 ! 7) ''3.5-3.6'',
              (bit_ss (M3 ! 6), bit_es (M3 ! 0), Ann_BIT, ''Reserved''),
              (bit_ss (M4 ! 7), bit_es (M4 ! 7), Ann_BIT, ''Reserved''),
              (bit_ss (M4 ! 6), bit_es (M4 ! 0), Ann_BIT, ''Reserved'')])"

section \<open>Properties of the decoder\<close>

subsection \<open>Indexing and the annotation output\<close>

lemma idx_Some [simp]: "i < length xs \<Longrightarrow> idx xs i = Some (xs ! i)"
  by (simp add: idx_def)

lemma idx_bits8:
  assumes "8 \<le> length m"
  shows "idx m 0 = Some (m ! 0)" "idx m 1 = Some (m ! 1)" "idx m 2 = Some (m ! 2)"
    "idx m 3 = Some (m ! 3)" "idx m 4 = Some (m ! 4)" "idx m 5 = Some (m ! 5)"
    "idx m 6 = Some (m ! 6)" "idx m 7 = Some (m ! 7)"
  using assms by (auto simp: idx_def)

lemma annotations_put [simp]: "annotations (put a b c t s) = annotations s @ [(a, b, c, t)]"
  by (simp add: put_def)

subsection \<open>The data response token\<close>

text \<open>
  Claim C4. A byte is delivered to \<^verbatim>\<open>decode\<close> in the phase DATA RESPONSE, with the bit
  array of the byte at hand. When the byte masked with 0x1f fails the test
  \<^verbatim>\<open>value & 0x11 == 0x01\<close>, the handler returns the decoder as it is: \<^verbatim>\<open>decode\<close> has
  recorded the sample range of the packet in \<^verbatim>\<open>ss\<close> and \<^verbatim>\<open>es\<close> and changes nothing
  else, so the phase is still DATA RESPONSE and the next byte is tried. When the test
  succeeds, \<^verbatim>\<open>decode\<close> puts the annotations of the fixed bits, with "Data accepted" for
  the masked value 0x05, "Data rejected (CRC error)" for 0x0b and
  "Data rejected (write error)" for 0x0d in between; after a CMD24 (the flag
  \<^verbatim>\<open>is_cmd24\<close>) it puts "Data Response" over the byte and the phase becomes
  WAIT WHILE CARD BUSY, and without the flag the phase becomes IDLE.
\<close>

theorem data_response_token:
  assumes "state s = DATA_RESPONSE" and "miso_bits s = Some m" and "8 \<le> length m"
  shows "((mi AND 0x1f) AND 0x11 \<noteq> 0x01 \<longrightarrow>
            decode T a b (DATA mo mi) s = Some (s\<lparr>ss := a, es := b\<rparr>)
          \<and> handle_data_response mi (s\<lparr>ss := a, es := b\<rparr>) = Some (s\<lparr>ss := a, es := b\<rparr>))
       \<and> ((mi AND 0x1f) AND 0x11 = 0x01 \<longrightarrow>
            (\<exists>s'. decode T a b (DATA mo mi) s = Some s'
               \<and> annotations s' = annotations s
                    @ [(bit_ss (m ! 7), bit_es (m ! 5), Ann_BIT, ''Don't care''),
                       (bit_ss (m ! 4), bit_es (m ! 4), Ann_BIT, ''Always 0'')]
                    @ (if mi AND 0x1f = 0x05
                       then [(bit_ss (m ! 3), bit_es (m ! 1), Ann_BIT, ''Data accepted'')]
                       else if mi AND 0x1f = 0x0b
                       then [(bit_ss (m ! 3), bit_es (m ! 1), Ann_BIT, ''Data rejected (CRC error)'')]
                       else if mi AND 0x1f = 0x0d
                       then [(bit_ss (m ! 3), bit_es (m ! 1), Ann_BIT, ''Data rejected (write error)'')]
                       else [])
                    @ [(bit_ss (m ! 0), bit_es (m ! 0), Ann_BIT, ''Always 1'')]
                    @ (if is_cmd24 s then [(a, b, Ann_CMD 24, ''Data Response'')] else [])
               \<and> (is_cmd24 s \<longrightarrow> state s' = WAIT_WHILE_CARD_BUSY \<and> busy_first_byte s'
                                 \<and> is_cmd24 s')
               \<and> (\<not> is_cmd24 s \<longrightarrow> state s' = IDLE)))"
proof (cases "(mi AND 0x1f) AND 0x11 = 0x01")
  case True
  with assms show ?thesis
    by (simp add: decode_def handle_data_response_def Let_def idx_bits8 put_def)
next
  case False
  with assms(1) show ?thesis
    by (simp add: decode_def handle_data_response_def)
qed

theorem data_response_token_witness:
  "state (reset\<lparr>state := DATA_RESPONSE, is_cmd24 := True, miso_bits := Some bits_example\<rparr>)
     = DATA_RESPONSE
   \<and> miso_bits (reset\<lparr>state := DATA_RESPONSE, is_cmd24 := True, miso_bits := Some bits_example\<rparr>)
     = Some bits_example
   \<and> 8 \<le> length bits_example
   \<and> (0x05 AND 0x1f) AND 0x11 = (0x01 :: nat)
   \<and> (\<exists>s'. decode names_example 80 160 (DATA 0xff 0x05)
              (reset\<lparr>state := DATA_RESPONSE, is_cmd24 := True, miso_bits := Some bits_example\<rparr>)
            = Some s'
          \<and> annotations s' =
               [(0, 30, Ann_BIT, ''Don't care''), (30, 40, Ann_BIT, ''Always 0''),
                (40, 70, Ann_BIT, ''Data accepted''), (70, 80, Ann_BIT, ''Always 1''),
                (80, 160, Ann_CMD 24, ''Data Response'')]
          \<and> state s' = WAIT_WHILE_CARD_BUSY)
   \<and> (0xff AND 0x1f) AND 0x11 \<noteq> (0x01 :: nat)
   \<and> decode names_example 80 160 (DATA 0xff 0xff)
        (reset\<lparr>state := DATA_RESPONSE, is_cmd24 := True, miso_bits := Some bits_example\<rparr>)
      = Some (reset\<lparr>state := DATA_RESPONSE, is_cmd24 := True, miso_bits := Some bits_example,
                ss := 80, es := 160\<rparr>)"
  using data_response_token [of "reset\<lparr>state := DATA_RESPONSE, is_cmd24 := True,
       miso_bits := Some bits_example\<rparr>" bits_example "0x05" names_example 80 160 "0xff"]
    data_response_token [of "reset\<lparr>state := DATA_RESPONSE, is_cmd24 := True,
       miso_bits := Some bits_example\<rparr>" bits_example "0xff" names_example 80 160 "0xff"]
  by (auto simp add: reset_def bits_example_def bit_ss_def bit_es_def)

subsection \<open>Chip select\<close>

text \<open>
  What the branch for CS-CHANGE does when the new level is 0: the phase is IDLE, the
  read buffer, its bit arrays and the flags of CMD17, CMD24 and of the busy phase are
  cleared. The command token and its bit arrays are not among the assignments.
\<close>

lemma cs_change_asserted:
  "decode T a b (CS_CHANGE d1 (Some 0)) s =
     Some (s\<lparr>state := IDLE, read_buf := [], read_bits := [], is_cmd17 := False,
              cmd17_start_token_found := False, is_cmd24 := False,
              cmd24_start_token_found := False, busy_first_byte := False\<rparr>)"
  by (simp add: decode_def)

text \<open>
  Claim C1 asks that after a chip-select change to the active level every buffer of
  the transaction, the partially accumulated command token among them, is empty. The
  theorem evaluates the decoder on a session in which chip select is released and
  asserted again after the first byte of a command token: the phase is IDLE, and the
  byte and its bit array are still in \<^verbatim>\<open>cmd_token\<close> and \<^verbatim>\<open>cmd_token_bits\<close>.
\<close>

theorem cs_change_leaves_command_token:
  "\<exists>s'. run T [(0, 0, CS_CHANGE None (Some 0)), (0, 80, BITS bits_0x40 bits_0xff),
                 (0, 80, DATA 0x40 0xff), (90, 90, CS_CHANGE (Some 0) (Some 1)),
                 (95, 95, CS_CHANGE (Some 1) (Some 0))] reset = Some s'
      \<and> state s' = IDLE \<and> cmd_token s' = [0x40] \<and> cmd_token_bits s' = [bits_0x40]"
  by (simp add: decode_def handle_command_token_def reset_def)

subsection \<open>Waiting while the card is busy\<close>

text \<open>
  Claim C7 asks that the "Card is busy" annotation of a run of zero bytes ends at the
  end of the last zero byte. The theorem evaluates the decoder in the busy phase, as
  \<^verbatim>\<open>handle_data_response\<close> enters it after a CMD24, on a run of one zero byte with
  samples 100 to 108 followed by the byte 0xff: the annotation starts at 100 and ends
  at the value \<^verbatim>\<open>es_busy\<close> had before, here 0, since the first zero byte of a run
  only assigns \<^verbatim>\<open>ss_busy\<close>.
\<close>

theorem busy_run_of_one_zero_byte:
  "\<exists>s'. run T [(100, 108, DATA 0xff 0x00), (108, 116, DATA 0xff 0xff)]
            (reset\<lparr>state := WAIT_WHILE_CARD_BUSY, is_cmd24 := True, busy_first_byte := True\<rparr>)
          = Some s'
      \<and> annotations s' = [(100, 0, Ann_CMD 24, ''Card is busy'')] \<and> state s' = IDLE"
  by (simp add: decode_def wait_while_busy_def reset_def)

subsection \<open>Evaluation in program order\<close>

text \<open>
  With this rule and \<open>let_weak_cong\<close> as congruence rules the simplifier evaluates a
  handler in the order of its statements: the continuation of a step is only looked at
  once the step has returned.
\<close>

lemma bind_weak_cong: "x = y \<Longrightarrow> Option.bind x f = Option.bind y f"
  by simp

lemma str_dec_0 [simp]: "str_dec 0 = ''0''"
  by (simp add: str_dec_def digits_base.simps)

lemma str_dec_1 [simp]: "str_dec (Suc 0) = ''1''"
  by (simp add: str_dec_def digits_base.simps)

lemma hex_pad_4_0: "hex_pad 4 0 = ''0000''"
  by (simp add: hex_pad_def digits_base.simps eval_nat_numeral)

lemma hex_pad_1_74: "hex_pad (Suc 0) 74 = ''4a''"
  by (simp add: hex_pad_def digits_base.simps)

lemma run_last [simp]: "(case x of None \<Rightarrow> None | Some s' \<Rightarrow> run T [] s') = x"
  by (cases x) simp_all

subsection \<open>Command tokens\<close>

text \<open>Each of the first five bytes of a command token is stored with its bit array.\<close>

lemma handle_command_token_short:
  assumes "mosi_bits s = Some mb" and "length (cmd_token s) < 5"
  shows "handle_command_token T mo mi s =
     Some (s\<lparr>ss_cmd := (if cmd_token s = [] then ss s else ss_cmd s),
              cmd_token := cmd_token s @ [mo],
              cmd_token_bits := cmd_token_bits s @ [mb]\<rparr>)"
  using assms by (simp add: handle_command_token_def Let_def)

lemma handle_command_token_cmd0:
  assumes "cmd_token s = [0x40, 0, 0, 0, 0]" and "cmd_token_bits s = [B0, B1, B2, B3, B4]"
    and "mosi_bits s = Some B5"
    and "8 \<le> length B0" and "8 \<le> length B1" and "8 \<le> length B2"
    and "8 \<le> length B3" and "8 \<le> length B4" and "8 \<le> length B5"
    and "bit_val (B0 ! 7) = 0" and "bit_val (B0 ! 6) = 1" and "bit_val (B5 ! 0) = 1"
  shows "\<exists>s'. handle_command_token T 0x95 mi s = Some s'
      \<and> annotations s' = annotations s @
           [(bit_ss (B0 ! 7), bit_es (B0 ! 7), Ann_BIT, ''Start bit: 0''),
            (bit_ss (B0 ! 6), bit_es (B0 ! 6), Ann_BIT, ''Transmitter bit: 1''),
            (bit_ss (B0 ! 5), bit_es (B0 ! 0), Ann_BIT,
               ''Command: CMD0 ('' @ (case cmd_names T 0 of None \<Rightarrow> ''Unknown'' | Some v \<Rightarrow> v) @ '')''),
            (bit_ss (B1 ! 7), bit_es (B4 ! 0), Ann_BIT, ''Argument: 0x0000''),
            (bit_ss (B5 ! 7), bit_es (B5 ! 1), Ann_BIT, ''CRC7: 0x4a''),
            (bit_ss (B5 ! 0), bit_es (B5 ! 0), Ann_BIT, ''End bit: 1'')]
      \<and> cmd_index s' = Some 0 \<and> arg s' = Some 0x00000000
      \<and> state s' = HANDLE_CMD 0"
  using assms
  by (simp add: handle_command_token_def tb_def Let_def putb_def put_def idx_bits8
      cmd_name_def hex_pad_4_0 hex_pad_1_74 cong: bind_weak_cong let_weak_cong)

text \<open>
  Claim C6. A decoder in the phase IDLE with an empty command token receives the six
  bytes 0x40 0x00 0x00 0x00 0x00 0x95, each after its bit array; the bit arrays have
  eight entries and show the start bit as 0, the transmitter bit as 1 and the end bit
  as 1, as the bytes do. After the sixth byte the decoder has put exactly the six
  annotations of the fields, all of class BIT and none a warning, with start bit 0,
  transmitter bit 1, command CMD0, argument 0x0000, CRC7 0x4a and end bit 1; the
  command index and the argument are 0 and the phase is HANDLE CMD0.
\<close>

theorem command_token_cmd0:
  assumes "state s = IDLE" and "cmd_token s = []" and "cmd_token_bits s = []"
    and "8 \<le> length B0" and "8 \<le> length B1" and "8 \<le> length B2"
    and "8 \<le> length B3" and "8 \<le> length B4" and "8 \<le> length B5"
    and "bit_val (B0 ! 7) = 0" and "bit_val (B0 ! 6) = 1" and "bit_val (B5 ! 0) = 1"
  shows "\<exists>s'. run T [(a0, e0, BITS B0 M0), (a0, e0, DATA 0x40 m0),
                     (a1, e1, BITS B1 M1), (a1, e1, DATA 0x00 m1),
                     (a2, e2, BITS B2 M2), (a2, e2, DATA 0x00 m2),
                     (a3, e3, BITS B3 M3), (a3, e3, DATA 0x00 m3),
                     (a4, e4, BITS B4 M4), (a4, e4, DATA 0x00 m4),
                     (a5, e5, BITS B5 M5), (a5, e5, DATA 0x95 m5)] s = Some s'
      \<and> annotations s' = annotations s @
           [(bit_ss (B0 ! 7), bit_es (B0 ! 7), Ann_BIT, ''Start bit: 0''),
            (bit_ss (B0 ! 6), bit_es (B0 ! 6), Ann_BIT, ''Transmitter bit: 1''),
            (bit_ss (B0 ! 5), bit_es (B0 ! 0), Ann_BIT,
               ''Command: CMD0 ('' @ (case cmd_names T 0 of None \<Rightarrow> ''Unknown'' | Some v \<Rightarrow> v) @ '')''),
            (bit_ss (B1 ! 7), bit_es (B4 ! 0), Ann_BIT, ''Argument: 0x0000''),
            (bit_ss (B5 ! 7), bit_es (B5 ! 1), Ann_BIT, ''CRC7: 0x4a''),
            (bit_ss (B5 ! 0), bit_es (B5 ! 0), Ann_BIT, ''End bit: 1'')]
      \<and> cmd_index s' = Some 0 \<and> arg s' = Some 0x00000000
      \<and> state s' = HANDLE_CMD 0"
proof -
  define s5 where "s5 = s\<lparr>state := GET_COMMAND_TOKEN, ss_cmd := a0, cmd_token := [0x40, 0, 0, 0, 0],
      cmd_token_bits := [B0, B1, B2, B3, B4], mosi_bits := Some B5, miso_bits := Some M5,
      ss := a5, es := e5\<rparr>"
  have run5: "run T [(a0, e0, BITS B0 M0), (a0, e0, DATA 0x40 m0),
                     (a1, e1, BITS B1 M1), (a1, e1, DATA 0x00 m1),
                     (a2, e2, BITS B2 M2), (a2, e2, DATA 0x00 m2),
                     (a3, e3, BITS B3 M3), (a3, e3, DATA 0x00 m3),
                     (a4, e4, BITS B4 M4), (a4, e4, DATA 0x00 m4),
                     (a5, e5, BITS B5 M5), (a5, e5, DATA 0x95 m5)] s
             = handle_command_token T 0x95 m5 s5"
    using assms(1-3)
    by (simp add: decode_def handle_command_token_short s5_def cong: bind_weak_cong let_weak_cong)
  have "cmd_token s5 = [0x40, 0, 0, 0, 0]" "cmd_token_bits s5 = [B0, B1, B2, B3, B4]"
    "mosi_bits s5 = Some B5" "annotations s5 = annotations s"
    by (simp_all add: s5_def)
  with handle_command_token_cmd0 [of s5 B0 B1 B2 B3 B4 B5 T m5] assms(4-12) run5
  show ?thesis by simp
qed

theorem command_token_cmd0_witness:
  "state reset = IDLE \<and> cmd_token reset = [] \<and> cmd_token_bits reset = []
   \<and> 8 \<le> length bits_0x40 \<and> 8 \<le> length bits_0x00 \<and> 8 \<le> length bits_0x95
   \<and> bit_val (bits_0x40 ! 7) = 0 \<and> bit_val (bits_0x40 ! 6) = 1 \<and> bit_val (bits_0x95 ! 0) = 1
   \<and> (\<exists>s'. run names_example
               [(0, 80, BITS bits_0x40 bits_0xff), (0, 80, DATA 0x40 0xff),
                (0, 80, BITS bits_0x00 bits_0xff), (0, 80, DATA 0x00 0xff),
                (0, 80, BITS bits_0x00 bits_0xff), (0, 80, DATA 0x00 0xff),
                (0, 80, BITS bits_0x00 bits_0xff), (0, 80, DATA 0x00 0xff),
                (0, 80, BITS bits_0x00 bits_0xff), (0, 80, DATA 0x00 0xff),
                (0, 80, BITS bits_0x95 bits_0xff), (0, 80, DATA 0x95 0xff)] reset = Some s'
        \<and> annotations s' =
             [(0, 10, Ann_BIT, ''Start bit: 0''),
              (10, 20, Ann_BIT, ''Transmitter bit: 1''),
              (20, 80, Ann_BIT, ''Command: CMD0 (GO_IDLE_STATE)''),
              (0, 80, Ann_BIT, ''Argument: 0x0000''),
              (0, 70, Ann_BIT, ''CRC7: 0x4a''),
              (70, 80, Ann_BIT, ''End bit: 1'')]
        \<and> cmd_index s' = Some 0 \<and> arg s' = Some 0 \<and> state s' = HANDLE_CMD 0)"
  using command_token_cmd0 [where s = reset and T = names_example
      and ?B0.0 = bits_0x40 and ?B1.0 = bits_0x00 and ?B2.0 = bits_0x00 and ?B3.0 = bits_0x00
      and ?B4.0 = bits_0x00 and ?B5.0 = bits_0x95
      and ?M0.0 = bits_0xff and ?M1.0 = bits_0xff and ?M2.0 = bits_0xff and ?M3.0 = bits_0xff
      and ?M4.0 = bits_0xff and ?M5.0 = bits_0xff
      and ?m0.0 = "0xff" and ?m1.0 = "0xff" and ?m2.0 = "0xff" and ?m3.0 = "0xff"
      and ?m4.0 = "0xff" and ?m5.0 = "0xff"
      and ?a0.0 = 0 and ?a1.0 = 0 and ?a2.0 = 0 and ?a3.0 = 0 and ?a4.0 = 0 and ?a5.0 = 0
      and ?e0.0 = 80 and ?e1.0 = 80 and ?e2.0 = 80 and ?e3.0 = 80 and ?e4.0 = 80 and ?e5.0 = 80]
  by (simp add: reset_def bits_0x40_def bits_0x00_def bits_0x95_def names_example_def
      bit_val_def bit_ss_def bit_es_def)

subsection \<open>Packets and phases\<close>

lemma decode_BITS:
  "decode T a b (BITS d1 d2) s = Some (s\<lparr>mosi_bits := Some d1, miso_bits := Some d2\<rparr>)"
  by (simp add: decode_def)

lemma decode_DATA_R1:
  "state s = GET_RESPONSE_R1 \<Longrightarrow> decode T a b (DATA mo mi) s =
     (if mi = 0xff then Some (s\<lparr>ss := a, es := b\<rparr>)
      else handle_response_r1 mi (s\<lparr>ss := a, es := b, state := IDLE\<rparr>))"
  by (simp add: decode_def)

lemma decode_DATA_R2:
  "state s = GET_RESPONSE_R2 \<Longrightarrow>
     decode T a b (DATA mo mi) s = handle_response_r2 mi (s\<lparr>ss := a, es := b\<rparr>)"
  by (simp add: decode_def)

lemma decode_DATA_R3:
  "state s = GET_RESPONSE_R3 \<Longrightarrow>
     decode T a b (DATA mo mi) s = handle_response_r3 mi (s\<lparr>ss := a, es := b\<rparr>)"
  by (simp add: decode_def)

lemma decode_DATA_R7:
  "state s = GET_RESPONSE_R7 \<Longrightarrow>
     decode T a b (DATA mo mi) s = handle_response_r7 mi (s\<lparr>ss := a, es := b\<rparr>)"
  by (simp add: decode_def)

subsection \<open>Response tokens\<close>

text \<open>
  The R1 handler, given a bit array of eight entries: it puts the R1 annotation and
  eight bit annotations, and leaves the phase to the flags of CMD17 and CMD24.
\<close>

lemma handle_response_r1_effect:
  assumes "miso_bits s = Some m" and "8 \<le> length m"
  shows "\<exists>s' anns. handle_response_r1 res s = Some s'
      \<and> annotations s' = annotations s
           @ (bit_ss (m ! 7), bit_es (m ! 0), Ann_R1, ''R1: 0x'' @ hex_pad 2 res) # anns
      \<and> length anns = 8
      \<and> state s' = (if is_cmd24 s then HANDLE_DATA_BLOCK_CMD24
                    else if is_cmd17 s then HANDLE_DATA_BLOCK_CMD17 else state s)
      \<and> read_buf s' = read_buf s \<and> read_bits s' = read_bits s
      \<and> is_cmd17 s' = is_cmd17 s \<and> is_cmd24 s' = is_cmd24 s
      \<and> miso_bits s' = miso_bits s \<and> es s' = es s \<and> ss s' = ss s
      \<and> is_acmd s' = is_acmd s \<and> cmd_token s' = cmd_token s"
  using assms
  by (simp add: handle_response_r1_def putbit_def putx_def putb_def put_def Let_def idx_bits8
      cong: bind_weak_cong let_weak_cong)

text \<open>
  The R3 handler: the first byte is handled as an R1 token, the bytes up to the
  fourth are stored, and the fifth completes the OCR. Each byte is stored whatever
  its value is.
\<close>

lemma handle_response_r3_first:
  assumes "read_buf s = []" and "miso_bits s = Some m" and "8 \<le> length m"
    and "\<not> is_cmd17 s" and "\<not> is_cmd24 s"
  shows "\<exists>s'. handle_response_r3 res s = Some s'
      \<and> state s' = state s \<and> read_buf s' = [res] \<and> read_bits s' = read_bits s @ [m]
      \<and> \<not> is_cmd17 s' \<and> \<not> is_cmd24 s'
      \<and> (bit_ss (m ! 7), bit_es (m ! 0), Ann_R1, ''R1: 0x'' @ hex_pad 2 res)
          \<in> set (annotations s')"
proof -
  let ?s2 = "s\<lparr>es_cmd := es s, read_buf := [res], read_bits := read_bits s @ [m]\<rparr>"
  have "miso_bits ?s2 = Some m" using assms by simp
  from handle_response_r1_effect [OF this assms(3), of res]
  obtain s1 anns where s1: "handle_response_r1 res ?s2 = Some s1"
    "annotations s1 = annotations ?s2
       @ (bit_ss (m ! 7), bit_es (m ! 0), Ann_R1, ''R1: 0x'' @ hex_pad 2 res) # anns"
    "state s1 = (if is_cmd24 ?s2 then HANDLE_DATA_BLOCK_CMD24
                 else if is_cmd17 ?s2 then HANDLE_DATA_BLOCK_CMD17 else state ?s2)"
    "read_buf s1 = read_buf ?s2" "read_bits s1 = read_bits ?s2"
    "is_cmd17 s1 = is_cmd17 ?s2" "is_cmd24 s1 = is_cmd24 ?s2"
    by blast
  have "handle_response_r3 res s = Some (putx Ann_R3 (''R1: 0x'' @ hex_pad 2 res) s1)"
    using assms(1,2) s1(1) by (simp add: handle_response_r3_def Let_def)
  with s1 assms show ?thesis
    by (simp add: putx_def put_def)
qed

lemma handle_response_r3_middle:
  assumes "miso_bits s = Some m" and "read_buf s \<noteq> []" and "length (read_buf s) < 4"
  shows "handle_response_r3 res s =
     Some (s\<lparr>es_cmd := es s, read_buf := read_buf s @ [res], read_bits := read_bits s @ [m]\<rparr>)"
  using assms by (simp add: handle_response_r3_def Let_def)

lemma handle_response_r3_last:
  assumes "read_buf s = [r0, r1, r2, r3]" and "read_bits s = [M0, M1, M2, M3]"
    and "miso_bits s = Some M4"
    and "8 \<le> length M1" and "8 \<le> length M2" and "8 \<le> length M3" and "8 \<le> length M4"
  shows "\<exists>s'. handle_response_r3 res s = Some s'
      \<and> state s' = IDLE \<and> read_buf s' = [] \<and> read_bits s' = []
      \<and> (bit_ss (M1 ! 7), bit_es (M1 ! 7), Ann_BIT,
            ''Card has '' @ (if bit_val (M1 ! 7) \<noteq> 0 then [] else ''not '')
              @ ''finished the power up routine'') \<in> set (annotations s')
      \<and> (\<exists>anns. annotations s' = annotations s
             @ (ss_cmd s, es s, Ann_R3, ''R3: [R1: 0x'' @ hex_pad 2 r0 @ '', OCR: 0x''
                  @ hex_pad 8 (push_bit 24 r1 OR push_bit 16 r2 OR push_bit 8 r3 OR res) @ '']'')
             # anns)"
  using assms
  by (simp add: handle_response_r3_def get_bit_def r3_voltage_def voltages_def
      putx_def putb_def put_def Let_def idx_bits8
      cong: bind_weak_cong let_weak_cong)

lemma run_pair_R3:
  assumes "state s = GET_RESPONSE_R3"
  shows "run T ((a, e, BITS B M) # (a', e', DATA mo mi) # evs) s =
     (case handle_response_r3 mi
             (s\<lparr>mosi_bits := Some B, miso_bits := Some M, ss := a', es := e'\<rparr>) of
        None \<Rightarrow> None
      | Some s' \<Rightarrow> run T evs s')"
  using assms by (simp add: decode_BITS decode_DATA_R3)

lemma handle_response_r1_exact:
  assumes "miso_bits s = Some m" and "8 \<le> length m"
  shows "\<exists>s'. handle_response_r1 res s = Some s'
      \<and> annotations s' = annotations s @ r1_annotations m res
      \<and> state s' = (if is_cmd24 s then HANDLE_DATA_BLOCK_CMD24
                    else if is_cmd17 s then HANDLE_DATA_BLOCK_CMD17 else state s)
      \<and> ss_cmd s' = bit_ss (m ! 7) \<and> es_cmd s' = bit_es (m ! 0)
      \<and> read_buf s' = read_buf s \<and> read_bits s' = read_bits s
      \<and> is_cmd17 s' = is_cmd17 s \<and> is_cmd24 s' = is_cmd24 s
      \<and> miso_bits s' = miso_bits s \<and> es s' = es s \<and> ss s' = ss s
      \<and> is_acmd s' = is_acmd s \<and> cmd_token s' = cmd_token s"
  using assms
  by (simp add: handle_response_r1_def putbit_def putx_def putb_def put_def Let_def idx_bits8
      r1_annotations_def cong: bind_weak_cong let_weak_cong)

lemma handle_response_r3_first_exact:
  assumes "read_buf s = []" and "miso_bits s = Some m" and "8 \<le> length m"
    and "\<not> is_cmd17 s" and "\<not> is_cmd24 s"
  shows "\<exists>s'. handle_response_r3 res s = Some s'
      \<and> state s' = state s \<and> read_buf s' = [res] \<and> read_bits s' = read_bits s @ [m]
      \<and> \<not> is_cmd17 s' \<and> \<not> is_cmd24 s' \<and> ss_cmd s' = bit_ss (m ! 7)
      \<and> annotations s' = annotations s @ r1_annotations m res
           @ [(bit_ss (m ! 7), bit_es (m ! 0), Ann_R3, ''R1: 0x'' @ hex_pad 2 res)]"
proof -
  let ?s2 = "s\<lparr>es_cmd := es s, read_buf := [res], read_bits := read_bits s @ [m]\<rparr>"
  have "miso_bits ?s2 = Some m" using assms by simp
  from handle_response_r1_exact [OF this assms(3), of res]
  obtain s1 where s1: "handle_response_r1 res ?s2 = Some s1"
    "annotations s1 = annotations ?s2 @ r1_annotations m res"
    "state s1 = (if is_cmd24 ?s2 then HANDLE_DATA_BLOCK_CMD24
                 else if is_cmd17 ?s2 then HANDLE_DATA_BLOCK_CMD17 else state ?s2)"
    "ss_cmd s1 = bit_ss (m ! 7)" "es_cmd s1 = bit_es (m ! 0)"
    "read_buf s1 = read_buf ?s2" "read_bits s1 = read_bits ?s2"
    "is_cmd17 s1 = is_cmd17 ?s2" "is_cmd24 s1 = is_cmd24 ?s2"
    by blast
  have "handle_response_r3 res s = Some (putx Ann_R3 (''R1: 0x'' @ hex_pad 2 res) s1)"
    using assms(1,2) s1(1) by (simp add: handle_response_r3_def Let_def)
  with s1 assms show ?thesis
    by (simp add: putx_def put_def)
qed

lemma handle_response_r3_last_exact:
  assumes "read_buf s = [r0, r1, r2, r3]" and "read_bits s = [M0, M1, M2, M3]"
    and "miso_bits s = Some M4"
    and "8 \<le> length M1" and "8 \<le> length M2" and "8 \<le> length M3" and "8 \<le> length M4"
  shows "\<exists>s'. handle_response_r3 res s = Some s'
      \<and> state s' = IDLE \<and> read_buf s' = [] \<and> read_bits s' = []
      \<and> annotations s' = annotations s
           @ [(ss_cmd s, es s, Ann_R3, ''R3: [R1: 0x'' @ hex_pad 2 r0 @ '', OCR: 0x''
                @ hex_pad 8 (push_bit 24 r1 OR push_bit 16 r2 OR push_bit 8 r3 OR res) @ '']'')]
           @ ocr_annotations M1 M2 M3 M4"
  using assms
  by (simp add: handle_response_r3_def get_bit_def r3_voltage_def voltages_def
      putx_def putb_def put_def Let_def idx_bits8 ocr_annotations_def voltage_annotation_def
      cong: bind_weak_cong let_weak_cong)

text \<open>Five bytes in the phase GET RESPONSE R3, each after its bit array.\<close>

lemma r3_five_bytes:
  assumes "state s = GET_RESPONSE_R3" and "read_buf s = []" and "read_bits s = []"
    and "\<not> is_cmd17 s" and "\<not> is_cmd24 s"
    and "8 \<le> length M0" and "8 \<le> length M1" and "8 \<le> length M2"
    and "8 \<le> length M3" and "8 \<le> length M4"
  shows "(\<exists>s4. run T [(a0, e0, BITS B0 M0), (a0, e0, DATA m0 r0),
                      (a1, e1, BITS B1 M1), (a1, e1, DATA m1 r1),
                      (a2, e2, BITS B2 M2), (a2, e2, DATA m2 r2),
                      (a3, e3, BITS B3 M3), (a3, e3, DATA m3 r3)] s = Some s4
            \<and> state s4 = GET_RESPONSE_R3 \<and> read_buf s4 = [r0, r1, r2, r3]
            \<and> annotations s4 = annotations s @ r1_annotations M0 r0
                 @ [(bit_ss (M0 ! 7), bit_es (M0 ! 0), Ann_R3, ''R1: 0x'' @ hex_pad 2 r0)])
       \<and> (\<exists>s'. run T [(a0, e0, BITS B0 M0), (a0, e0, DATA m0 r0),
                      (a1, e1, BITS B1 M1), (a1, e1, DATA m1 r1),
                      (a2, e2, BITS B2 M2), (a2, e2, DATA m2 r2),
                      (a3, e3, BITS B3 M3), (a3, e3, DATA m3 r3),
                      (a4, e4, BITS B4 M4), (a4, e4, DATA m4 r4)] s = Some s'
            \<and> state s' = IDLE \<and> read_buf s' = [] \<and> read_bits s' = []
            \<and> annotations s' = annotations s @ r1_annotations M0 r0
                 @ [(bit_ss (M0 ! 7), bit_es (M0 ! 0), Ann_R3, ''R1: 0x'' @ hex_pad 2 r0),
                    (bit_ss (M0 ! 7), e4, Ann_R3, ''R3: [R1: 0x'' @ hex_pad 2 r0 @ '', OCR: 0x''
                       @ hex_pad 8 (push_bit 24 r1 OR push_bit 16 r2 OR push_bit 8 r3 OR r4)
                       @ '']'')]
                 @ ocr_annotations M1 M2 M3 M4)"
proof -
  let ?s0 = "s\<lparr>mosi_bits := Some B0, miso_bits := Some M0, ss := a0, es := e0\<rparr>"
  have "\<exists>s1. handle_response_r3 r0 ?s0 = Some s1
      \<and> state s1 = state ?s0 \<and> read_buf s1 = [r0] \<and> read_bits s1 = read_bits ?s0 @ [M0]
      \<and> \<not> is_cmd17 s1 \<and> \<not> is_cmd24 s1 \<and> ss_cmd s1 = bit_ss (M0 ! 7)
      \<and> annotations s1 = annotations ?s0 @ r1_annotations M0 r0
           @ [(bit_ss (M0 ! 7), bit_es (M0 ! 0), Ann_R3, ''R1: 0x'' @ hex_pad 2 r0)]"
    using handle_response_r3_first_exact [where s = ?s0 and m = M0 and res = r0] assms
    by simp
  then obtain s1 where s1: "handle_response_r3 r0 ?s0 = Some s1"
    "state s1 = GET_RESPONSE_R3" "read_buf s1 = [r0]" "read_bits s1 = [M0]"
    "ss_cmd s1 = bit_ss (M0 ! 7)"
    "annotations s1 = annotations s @ r1_annotations M0 r0
           @ [(bit_ss (M0 ! 7), bit_es (M0 ! 0), Ann_R3, ''R1: 0x'' @ hex_pad 2 r0)]"
    using assms by auto
  define s4 where "s4 = s1\<lparr>mosi_bits := Some B3, miso_bits := Some M3, ss := a3, es := e3,
      es_cmd := e3, read_buf := [r0, r1, r2, r3], read_bits := [M0, M1, M2, M3]\<rparr>"
  have run4: "run T ((a0, e0, BITS B0 M0) # (a0, e0, DATA m0 r0) #
                     (a1, e1, BITS B1 M1) # (a1, e1, DATA m1 r1) #
                     (a2, e2, BITS B2 M2) # (a2, e2, DATA m2 r2) #
                     (a3, e3, BITS B3 M3) # (a3, e3, DATA m3 r3) # evs) s = run T evs s4"
    for evs
    using assms(1) s1
    by (simp add: run_pair_R3 handle_response_r3_middle s4_def del: run.simps(2))
  have s4: "state s4 = GET_RESPONSE_R3" "read_buf s4 = [r0, r1, r2, r3]"
    "read_bits s4 = [M0, M1, M2, M3]" "ss_cmd s4 = bit_ss (M0 ! 7)"
    "annotations s4 = annotations s @ r1_annotations M0 r0
           @ [(bit_ss (M0 ! 7), bit_es (M0 ! 0), Ann_R3, ''R1: 0x'' @ hex_pad 2 r0)]"
    using s1 by (simp_all add: s4_def)
  let ?s5 = "s4\<lparr>mosi_bits := Some B4, miso_bits := Some M4, ss := a4, es := e4\<rparr>"
  have "\<exists>s'. handle_response_r3 r4 ?s5 = Some s'
      \<and> state s' = IDLE \<and> read_buf s' = [] \<and> read_bits s' = []
      \<and> annotations s' = annotations ?s5
           @ [(ss_cmd ?s5, es ?s5, Ann_R3, ''R3: [R1: 0x'' @ hex_pad 2 r0 @ '', OCR: 0x''
                @ hex_pad 8 (push_bit 24 r1 OR push_bit 16 r2 OR push_bit 8 r3 OR r4) @ '']'')]
           @ ocr_annotations M1 M2 M3 M4"
    using handle_response_r3_last_exact [where s = ?s5 and res = r4 and ?r0.0 = r0
        and ?r1.0 = r1 and ?r2.0 = r2 and ?r3.0 = r3 and ?M0.0 = M0 and ?M1.0 = M1
        and ?M2.0 = M2 and ?M3.0 = M3 and ?M4.0 = M4] s4 assms(7-10)
    by simp
  then obtain s' where s': "handle_response_r3 r4 ?s5 = Some s'"
    "state s' = IDLE" "read_buf s' = []" "read_bits s' = []"
    "annotations s' = annotations s @ r1_annotations M0 r0
       @ [(bit_ss (M0 ! 7), bit_es (M0 ! 0), Ann_R3, ''R1: 0x'' @ hex_pad 2 r0),
          (bit_ss (M0 ! 7), e4, Ann_R3, ''R3: [R1: 0x'' @ hex_pad 2 r0 @ '', OCR: 0x''
             @ hex_pad 8 (push_bit 24 r1 OR push_bit 16 r2 OR push_bit 8 r3 OR r4) @ '']'')]
       @ ocr_annotations M1 M2 M3 M4"
    using s4 by auto
  have "run T [(a4, e4, BITS B4 M4), (a4, e4, DATA m4 r4)] s4 = Some s'"
    using s4(1) s'(1) by (simp add: run_pair_R3 del: run.simps(2))
  with run4 [of "[(a4, e4, BITS B4 M4), (a4, e4, DATA m4 r4)]"] run4 [of "[]"] s4 s'
  show ?thesis by simp
qed

text \<open>
  Claim C8, as amended. In the phase GET RESPONSE R3, with empty read buffers and no
  CMD17 or CMD24 pending (as after \<^verbatim>\<open>handle_cmd58\<close>), five bytes \<open>r0\<close> to \<open>r4\<close> are
  received, each after its bit array of eight entries. The first byte is decoded as an
  R1 token: after four bytes the decoder has put the annotations of the R1 token \<open>r0\<close>
  and nothing else, and the phase is still GET RESPONSE R3. The other four bytes are
  the OCR, most significant byte first: the fifth byte puts the R3 annotation with the
  OCR \<open>r1 r2 r3 r4\<close> and the bit annotations of the OCR, the first of which is the
  power-up status, bit 31 of the OCR, read from entry 7 of the bit array of the second
  byte; the phase is then IDLE. The theorem gives the whole list of annotations, so
  the power-up annotation says "finished" exactly when that bit is not 0 and there is
  no other power-up annotation.
\<close>

theorem r3_response_power_up:
  assumes "state s = GET_RESPONSE_R3" and "read_buf s = []" and "read_bits s = []"
    and "\<not> is_cmd17 s" and "\<not> is_cmd24 s"
    and "8 \<le> length M0" and "8 \<le> length M1" and "8 \<le> length M2"
    and "8 \<le> length M3" and "8 \<le> length M4"
  shows "(\<exists>s4. run T [(a0, e0, BITS B0 M0), (a0, e0, DATA m0 r0),
                      (a1, e1, BITS B1 M1), (a1, e1, DATA m1 r1),
                      (a2, e2, BITS B2 M2), (a2, e2, DATA m2 r2),
                      (a3, e3, BITS B3 M3), (a3, e3, DATA m3 r3)] s = Some s4
            \<and> state s4 = GET_RESPONSE_R3 \<and> read_buf s4 = [r0, r1, r2, r3]
            \<and> annotations s4 = annotations s @ r1_annotations M0 r0
                 @ [(bit_ss (M0 ! 7), bit_es (M0 ! 0), Ann_R3, ''R1: 0x'' @ hex_pad 2 r0)])
       \<and> (\<exists>s'. run T [(a0, e0, BITS B0 M0), (a0, e0, DATA m0 r0),
                      (a1, e1, BITS B1 M1), (a1, e1, DATA m1 r1),
                      (a2, e2, BITS B2 M2), (a2, e2, DATA m2 r2),
                      (a3, e3, BITS B3 M3), (a3, e3, DATA m3 r3),
                      (a4, e4, BITS B4 M4), (a4, e4, DATA m4 r4)] s = Some s'
            \<and> state s' = IDLE \<and> read_buf s' = [] \<and> read_bits s' = []
            \<and> annotations s' = annotations s @ r1_annotations M0 r0
                 @ [(bit_ss (M0 ! 7), bit_es (M0 ! 0), Ann_R3, ''R1: 0x'' @ hex_pad 2 r0),
                    (bit_ss (M0 ! 7), e4, Ann_R3, ''R3: [R1: 0x'' @ hex_pad 2 r0 @ '', OCR: 0x''
                       @ hex_pad 8 (push_bit 24 r1 OR push_bit 16 r2 OR push_bit 8 r3 OR r4)
                       @ '']'')]
                 @ ocr_annotations M1 M2 M3 M4)"
  by (rule r3_five_bytes [OF assms])

lemma hex_pad_2_c0: "hex_pad 2 0xc0 = ''c0''"
  by (simp add: hex_pad_def digits_base.simps)

lemma hex_pad_8_ocr: "hex_pad 8 0x08000000 = ''08000000''"
  by (simp add: hex_pad_def digits_base.simps)

lemma r3_example_annotations:
  "r1_annotations (byte_bits 0xc0 560) 0xc0
     @ [(bit_ss (byte_bits 0xc0 560 ! 7), bit_es (byte_bits 0xc0 560 ! 0), Ann_R3,
          ''R1: 0x'' @ hex_pad 2 0xc0),
        (bit_ss (byte_bits 0xc0 560 ! 7), 960, Ann_R3, ''R3: [R1: 0x'' @ hex_pad 2 0xc0
           @ '', OCR: 0x''
           @ hex_pad 8 (push_bit 24 0x08 OR push_bit 16 0x00 OR push_bit 8 0x00 OR 0x00)
           @ '']'')]
     @ ocr_annotations (byte_bits 0x08 640) (byte_bits 0x00 720) (byte_bits 0x00 800)
         (byte_bits 0x00 880)
   = [(560, 640, Ann_R1, ''R1: 0xc0''),
      (630, 640, Ann_BIT, ''Card is not in idle state''),
      (620, 630, Ann_BIT, ''Erase sequence not cleared''),
      (610, 620, Ann_BIT, ''No illegal command detected''),
      (600, 610, Ann_BIT, ''CRC check of last command was successful''),
      (590, 600, Ann_BIT, ''No error in the sequence of erase commands''),
      (580, 590, Ann_BIT, ''No misaligned address used in command''),
      (570, 580, Ann_BIT, ''Command argument outside allowed range''),
      (560, 570, Ann_BIT, ''Bit 7 (always 0)''),
      (560, 640, Ann_R3, ''R1: 0xc0''),
      (560, 960, Ann_R3, ''R3: [R1: 0xc0, OCR: 0x08000000]''),
      (640, 650, Ann_BIT, ''Card has not finished the power up routine''),
      (650, 660, Ann_BIT, ''Card capacity is unknown''),
      (660, 670, Ann_BIT, ''UHS-II interface not supported''),
      (670, 680, Ann_BIT, ''Reserved''),
      (680, 690, Ann_BIT, ''Over 2TB is supported''),
      (690, 710, Ann_BIT, ''Reserved''),
      (710, 720, Ann_BIT, ''Switching to 1.8V not accepted''),
      (800, 810, Ann_BIT, ''2.7-2.8V not supported''),
      (790, 800, Ann_BIT, ''2.8-2.9V not supported''),
      (780, 790, Ann_BIT, ''2.9-3.0V not supported''),
      (770, 780, Ann_BIT, ''3.0-3.1V not supported''),
      (760, 770, Ann_BIT, ''3.1-3.2V not supported''),
      (750, 760, Ann_BIT, ''3.2-3.3V not supported''),
      (740, 750, Ann_BIT, ''3.3-3.4V not supported''),
      (730, 740, Ann_BIT, ''3.4-3.5V not supported''),
      (720, 730, Ann_BIT, ''3.5-3.6V not supported''),
      (810, 880, Ann_BIT, ''Reserved''),
      (880, 890, Ann_BIT, ''Reserved''),
      (890, 960, Ann_BIT, ''Reserved'')]"
  by (simp add: r1_annotations_def ocr_annotations_def voltage_annotation_def byte_bits_def
      bit_at_def bit_set_def bit_val_def bit_ss_def bit_es_def hex_pad_2_c0 hex_pad_8_ocr)

theorem r3_response_power_up_witness:
  "state (reset\<lparr>state := GET_RESPONSE_R3\<rparr>) = GET_RESPONSE_R3
   \<and> read_buf (reset\<lparr>state := GET_RESPONSE_R3\<rparr>) = []
   \<and> read_bits (reset\<lparr>state := GET_RESPONSE_R3\<rparr>) = []
   \<and> \<not> is_cmd17 (reset\<lparr>state := GET_RESPONSE_R3\<rparr>)
   \<and> \<not> is_cmd24 (reset\<lparr>state := GET_RESPONSE_R3\<rparr>)
   \<and> 8 \<le> length (byte_bits 0xc0 560) \<and> 8 \<le> length (byte_bits 0x08 640)
   \<and> 8 \<le> length (byte_bits 0x00 720) \<and> 8 \<le> length (byte_bits 0x00 800)
   \<and> 8 \<le> length (byte_bits 0x00 880)
   \<and> (\<exists>s'. run names_example
               (transfer 7 0xff 0xc0 @ transfer 8 0xff 0x08 @ transfer 9 0xff 0x00
                @ transfer 10 0xff 0x00 @ transfer 11 0xff 0x00)
               (reset\<lparr>state := GET_RESPONSE_R3\<rparr>) = Some s'
          \<and> state s' = IDLE
          \<and> annotations s' =
               [(560, 640, Ann_R1, ''R1: 0xc0''),
                (630, 640, Ann_BIT, ''Card is not in idle state''),
                (620, 630, Ann_BIT, ''Erase sequence not cleared''),
                (610, 620, Ann_BIT, ''No illegal command detected''),
                (600, 610, Ann_BIT, ''CRC check of last command was successful''),
                (590, 600, Ann_BIT, ''No error in the sequence of erase commands''),
                (580, 590, Ann_BIT, ''No misaligned address used in command''),
                (570, 580, Ann_BIT, ''Command argument outside allowed range''),
                (560, 570, Ann_BIT, ''Bit 7 (always 0)''),
                (560, 640, Ann_R3, ''R1: 0xc0''),
                (560, 960, Ann_R3, ''R3: [R1: 0xc0, OCR: 0x08000000]''),
                (640, 650, Ann_BIT, ''Card has not finished the power up routine''),
                (650, 660, Ann_BIT, ''Card capacity is unknown''),
                (660, 670, Ann_BIT, ''UHS-II interface not supported''),
                (670, 680, Ann_BIT, ''Reserved''),
                (680, 690, Ann_BIT, ''Over 2TB is supported''),
                (690, 710, Ann_BIT, ''Reserved''),
                (710, 720, Ann_BIT, ''Switching to 1.8V not accepted''),
                (800, 810, Ann_BIT, ''2.7-2.8V not supported''),
                (790, 800, Ann_BIT, ''2.8-2.9V not supported''),
                (780, 790, Ann_BIT, ''2.9-3.0V not supported''),
                (770, 780, Ann_BIT, ''3.0-3.1V not supported''),
                (760, 770, Ann_BIT, ''3.1-3.2V not supported''),
                (750, 760, Ann_BIT, ''3.2-3.3V not supported''),
                (740, 750, Ann_BIT, ''3.3-3.4V not supported''),
                (730, 740, Ann_BIT, ''3.4-3.5V not supported''),
                (720, 730, Ann_BIT, ''3.5-3.6V not supported''),
                (810, 880, Ann_BIT, ''Reserved''),
                (880, 890, Ann_BIT, ''Reserved''),
                (890, 960, Ann_BIT, ''Reserved'')])"
proof -
  let ?s = "reset\<lparr>state := GET_RESPONSE_R3\<rparr>"
  have hyps: "state ?s = GET_RESPONSE_R3" "read_buf ?s = []" "read_bits ?s = []"
    "\<not> is_cmd17 ?s" "\<not> is_cmd24 ?s"
    "8 \<le> length (byte_bits 0xc0 560)" "8 \<le> length (byte_bits 0x08 640)"
    "8 \<le> length (byte_bits 0x00 720)" "8 \<le> length (byte_bits 0x00 800)"
    "8 \<le> length (byte_bits 0x00 880)"
    by (simp_all add: reset_def byte_bits_def)
  have ev: "transfer 7 0xff 0xc0 @ transfer 8 0xff 0x08 @ transfer 9 0xff 0x00
                @ transfer 10 0xff 0x00 @ transfer 11 0xff 0x00
      = [(560, 640, BITS (byte_bits 0xff 560) (byte_bits 0xc0 560)), (560, 640, DATA 0xff 0xc0),
         (640, 720, BITS (byte_bits 0xff 640) (byte_bits 0x08 640)), (640, 720, DATA 0xff 0x08),
         (720, 800, BITS (byte_bits 0xff 720) (byte_bits 0x00 720)), (720, 800, DATA 0xff 0x00),
         (800, 880, BITS (byte_bits 0xff 800) (byte_bits 0x00 800)), (800, 880, DATA 0xff 0x00),
         (880, 960, BITS (byte_bits 0xff 880) (byte_bits 0x00 880)), (880, 960, DATA 0xff 0x00)]"
    by (simp add: transfer_def)
  from r3_response_power_up [OF hyps, where T = names_example
      and ?B0.0 = "byte_bits 0xff 560" and ?B1.0 = "byte_bits 0xff 640"
      and ?B2.0 = "byte_bits 0xff 720" and ?B3.0 = "byte_bits 0xff 800"
      and ?B4.0 = "byte_bits 0xff 880"
      and ?m0.0 = "0xff" and ?m1.0 = "0xff" and ?m2.0 = "0xff" and ?m3.0 = "0xff"
      and ?m4.0 = "0xff"
      and ?r0.0 = "0xc0" and ?r1.0 = "0x08" and ?r2.0 = "0x00" and ?r3.0 = "0x00"
      and ?r4.0 = "0x00"
      and ?a0.0 = 560 and ?a1.0 = 640 and ?a2.0 = 720 and ?a3.0 = 800 and ?a4.0 = 880
      and ?e0.0 = 640 and ?e1.0 = 720 and ?e2.0 = 800 and ?e3.0 = 880 and ?e4.0 = 960]
  have "\<exists>s'. run names_example
               (transfer 7 0xff 0xc0 @ transfer 8 0xff 0x08 @ transfer 9 0xff 0x00
                @ transfer 10 0xff 0x00 @ transfer 11 0xff 0x00) ?s = Some s'
          \<and> state s' = IDLE
          \<and> annotations s' = annotations ?s @
               (r1_annotations (byte_bits 0xc0 560) 0xc0
     @ [(bit_ss (byte_bits 0xc0 560 ! 7), bit_es (byte_bits 0xc0 560 ! 0), Ann_R3,
          ''R1: 0x'' @ hex_pad 2 0xc0),
        (bit_ss (byte_bits 0xc0 560 ! 7), 960, Ann_R3, ''R3: [R1: 0x'' @ hex_pad 2 0xc0
           @ '', OCR: 0x''
           @ hex_pad 8 (push_bit 24 0x08 OR push_bit 16 0x00 OR push_bit 8 0x00 OR 0x00)
           @ '']'')]
     @ ocr_annotations (byte_bits 0x08 640) (byte_bits 0x00 720) (byte_bits 0x00 800)
         (byte_bits 0x00 880))"
    unfolding ev by blast
  then show ?thesis
    unfolding r3_example_annotations using hyps by (simp add: reset_def)
qed

lemma run_append:
  "run T (xs @ ys) s = (case run T xs s of None \<Rightarrow> None | Some s' \<Rightarrow> run T ys s')"
  by (induction xs arbitrary: s) (auto split: option.splits)

lemma handle_cmd58_step:
  assumes "state s = HANDLE_CMD 58" and "\<not> is_acmd s"
  shows "\<exists>s'. decode T a b (DATA mo mi) s = Some s'
      \<and> state s' = GET_RESPONSE_R3 \<and> read_buf s' = [] \<and> read_bits s' = []
      \<and> is_cmd17 s' = is_cmd17 s \<and> is_cmd24 s' = is_cmd24 s \<and> \<not> is_acmd s'
      \<and> cmd_token s' = []
      \<and> annotations s' = annotations s
           @ [(ss_cmd s, es_cmd s, Ann_CMD 58, cmd_str s @ '': Read the OCR register'')]"
  using assms
  by (simp add: decode_def handle_cmd_lookup_def handle_cmd58_def putc_def putx_def put_def)

lemma hex_pad_1_126: "hex_pad (Suc 0) 126 = ''7e''"
  by (simp add: hex_pad_def digits_base.simps)

lemma cmd58_token_run:
  "\<exists>s'. run names_example
           (transfer 0 0x7a 0xff @ transfer 1 0x00 0xff @ transfer 2 0x00 0xff
            @ transfer 3 0x00 0xff @ transfer 4 0x00 0xff @ transfer 5 0xfd 0xff) reset = Some s'
      \<and> state s' = HANDLE_CMD 58 \<and> \<not> is_acmd s' \<and> \<not> is_cmd17 s' \<and> \<not> is_cmd24 s'
      \<and> ss_cmd s' = 0 \<and> es_cmd s' = 480 \<and> cmd_str s' = ''CMD58 (READ_OCR)''
      \<and> annotations s' =
           [(0, 10, Ann_BIT, ''Start bit: 0''), (10, 20, Ann_BIT, ''Transmitter bit: 1''),
            (20, 80, Ann_BIT, ''Command: CMD58 (READ_OCR)''),
            (80, 400, Ann_BIT, ''Argument: 0x0000''), (400, 470, Ann_BIT, ''CRC7: 0x7e''),
            (470, 480, Ann_BIT, ''End bit: 1'')]"
  by (simp add: transfer_def byte_bits_def bit_at_def reset_def names_example_def
      decode_def handle_command_token_def tb_def cmd_name_def putb_def put_def
      bit_val_def bit_ss_def bit_es_def
      str_dec_def hex_pad_4_0 hex_pad_1_126 digits_base.simps Let_def
      cong: bind_weak_cong let_weak_cong)

text \<open>
  Claim C8 as stated fails. The session is the command token of CMD58, one more byte
  and the bytes 0xc0 0x08 0x00 0x00 0x00 from the card, given to a new decoder. The
  decoder ends in the phase IDLE. The byte 0xc0 is annotated as the R1 token and the
  OCR is 0x08000000, whose bit 31 is 0: the power-up annotation, at the samples 640 to
  650 of bit 7 of the second response byte, is "Card has not finished the power up
  routine", and no annotation of the session says that the card has finished it.
\<close>

theorem r3_power_up_counterexample:
  "last_phase (run names_example r3_session reset) = Some IDLE
   \<and> anns (run names_example r3_session reset) =
       [(0, 10, Ann_BIT, ''Start bit: 0''), (10, 20, Ann_BIT, ''Transmitter bit: 1''),
        (20, 80, Ann_BIT, ''Command: CMD58 (READ_OCR)''),
        (80, 400, Ann_BIT, ''Argument: 0x0000''), (400, 470, Ann_BIT, ''CRC7: 0x7e''),
        (470, 480, Ann_BIT, ''End bit: 1''),
        (0, 480, Ann_CMD 58, ''CMD58 (READ_OCR): Read the OCR register''),
        (560, 640, Ann_R1, ''R1: 0xc0''),
        (630, 640, Ann_BIT, ''Card is not in idle state''),
        (620, 630, Ann_BIT, ''Erase sequence not cleared''),
        (610, 620, Ann_BIT, ''No illegal command detected''),
        (600, 610, Ann_BIT, ''CRC check of last command was successful''),
        (590, 600, Ann_BIT, ''No error in the sequence of erase commands''),
        (580, 590, Ann_BIT, ''No misaligned address used in command''),
        (570, 580, Ann_BIT, ''Command argument outside allowed range''),
        (560, 570, Ann_BIT, ''Bit 7 (always 0)''),
        (560, 640, Ann_R3, ''R1: 0xc0''),
        (560, 960, Ann_R3, ''R3: [R1: 0xc0, OCR: 0x08000000]''),
        (640, 650, Ann_BIT, ''Card has not finished the power up routine''),
        (650, 660, Ann_BIT, ''Card capacity is unknown''),
        (660, 670, Ann_BIT, ''UHS-II interface not supported''),
        (670, 680, Ann_BIT, ''Reserved''),
        (680, 690, Ann_BIT, ''Over 2TB is supported''),
        (690, 710, Ann_BIT, ''Reserved''),
        (710, 720, Ann_BIT, ''Switching to 1.8V not accepted''),
        (800, 810, Ann_BIT, ''2.7-2.8V not supported''),
        (790, 800, Ann_BIT, ''2.8-2.9V not supported''),
        (780, 790, Ann_BIT, ''2.9-3.0V not supported''),
        (770, 780, Ann_BIT, ''3.0-3.1V not supported''),
        (760, 770, Ann_BIT, ''3.1-3.2V not supported''),
        (750, 760, Ann_BIT, ''3.2-3.3V not supported''),
        (740, 750, Ann_BIT, ''3.3-3.4V not supported''),
        (730, 740, Ann_BIT, ''3.4-3.5V not supported''),
        (720, 730, Ann_BIT, ''3.5-3.6V not supported''),
        (810, 880, Ann_BIT, ''Reserved''),
        (880, 890, Ann_BIT, ''Reserved''),
        (890, 960, Ann_BIT, ''Reserved'')]
   \<and> ''Card has not finished the power up routine''
        \<in> set (texts (run names_example r3_session reset))
   \<and> ''Card has finished the power up routine''
        \<notin> set (texts (run names_example r3_session reset))"
proof -
  obtain s6 where s6: "run names_example
           (transfer 0 0x7a 0xff @ transfer 1 0x00 0xff @ transfer 2 0x00 0xff
            @ transfer 3 0x00 0xff @ transfer 4 0x00 0xff @ transfer 5 0xfd 0xff) reset = Some s6"
    "state s6 = HANDLE_CMD 58" "\<not> is_acmd s6" "\<not> is_cmd17 s6" "\<not> is_cmd24 s6"
    "ss_cmd s6 = 0" "es_cmd s6 = 480" "cmd_str s6 = ''CMD58 (READ_OCR)''"
    "annotations s6 =
           [(0, 10, Ann_BIT, ''Start bit: 0''), (10, 20, Ann_BIT, ''Transmitter bit: 1''),
            (20, 80, Ann_BIT, ''Command: CMD58 (READ_OCR)''),
            (80, 400, Ann_BIT, ''Argument: 0x0000''), (400, 470, Ann_BIT, ''CRC7: 0x7e''),
            (470, 480, Ann_BIT, ''End bit: 1'')]"
    using cmd58_token_run by blast
  let ?s6 = "s6\<lparr>mosi_bits := Some (byte_bits 0xff 480), miso_bits := Some (byte_bits 0xff 480)\<rparr>"
  obtain s7 where s7: "decode names_example 480 560 (DATA 0xff 0xff) ?s6 = Some s7"
    "state s7 = GET_RESPONSE_R3" "read_buf s7 = []" "read_bits s7 = []"
    "\<not> is_cmd17 s7" "\<not> is_cmd24 s7"
    "annotations s7 = annotations s6
       @ [(0, 480, Ann_CMD 58, ''CMD58 (READ_OCR): Read the OCR register'')]"
    using handle_cmd58_step [where s = ?s6 and T = names_example and a = 480 and b = 560
        and mo = "0xff" and mi = "0xff"] s6
    by auto
  have run7: "run names_example (transfer 6 0xff 0xff) s6 = Some s7"
    using s7(1) by (simp add: transfer_def decode_BITS)
  have hyps: "8 \<le> length (byte_bits 0xc0 560)" "8 \<le> length (byte_bits 0x08 640)"
    "8 \<le> length (byte_bits 0x00 720)" "8 \<le> length (byte_bits 0x00 800)"
    "8 \<le> length (byte_bits 0x00 880)"
    by (simp_all add: byte_bits_def)
  define C where "C = transfer 7 0xff 0xc0 @ transfer 8 0xff 0x08 @ transfer 9 0xff 0x00
         @ transfer 10 0xff 0x00 @ transfer 11 0xff 0x00"
  have ev: "C
      = [(560, 640, BITS (byte_bits 0xff 560) (byte_bits 0xc0 560)), (560, 640, DATA 0xff 0xc0),
         (640, 720, BITS (byte_bits 0xff 640) (byte_bits 0x08 640)), (640, 720, DATA 0xff 0x08),
         (720, 800, BITS (byte_bits 0xff 720) (byte_bits 0x00 720)), (720, 800, DATA 0xff 0x00),
         (800, 880, BITS (byte_bits 0xff 800) (byte_bits 0x00 800)), (800, 880, DATA 0xff 0x00),
         (880, 960, BITS (byte_bits 0xff 880) (byte_bits 0x00 880)), (880, 960, DATA 0xff 0x00)]"
    by (simp add: C_def transfer_def)
  from r3_five_bytes [OF s7(2-6) hyps, where T = names_example
      and ?B0.0 = "byte_bits 0xff 560" and ?B1.0 = "byte_bits 0xff 640"
      and ?B2.0 = "byte_bits 0xff 720" and ?B3.0 = "byte_bits 0xff 800"
      and ?B4.0 = "byte_bits 0xff 880"
      and ?m0.0 = "0xff" and ?m1.0 = "0xff" and ?m2.0 = "0xff" and ?m3.0 = "0xff"
      and ?m4.0 = "0xff"
      and ?r0.0 = "0xc0" and ?r1.0 = "0x08" and ?r2.0 = "0x00" and ?r3.0 = "0x00"
      and ?r4.0 = "0x00"
      and ?a0.0 = 560 and ?a1.0 = 640 and ?a2.0 = 720 and ?a3.0 = 800 and ?a4.0 = 880
      and ?e0.0 = 640 and ?e1.0 = 720 and ?e2.0 = 800 and ?e3.0 = 880 and ?e4.0 = 960]
  have "\<exists>s'. run names_example C s7 = Some s'
          \<and> state s' = IDLE
          \<and> annotations s' = annotations s7 @
               (r1_annotations (byte_bits 0xc0 560) 0xc0
     @ [(bit_ss (byte_bits 0xc0 560 ! 7), bit_es (byte_bits 0xc0 560 ! 0), Ann_R3,
          ''R1: 0x'' @ hex_pad 2 0xc0),
        (bit_ss (byte_bits 0xc0 560 ! 7), 960, Ann_R3, ''R3: [R1: 0x'' @ hex_pad 2 0xc0
           @ '', OCR: 0x''
           @ hex_pad 8 (push_bit 24 0x08 OR push_bit 16 0x00 OR push_bit 8 0x00 OR 0x00)
           @ '']'')]
     @ ocr_annotations (byte_bits 0x08 640) (byte_bits 0x00 720) (byte_bits 0x00 800)
         (byte_bits 0x00 880))"
    unfolding ev by blast
  then obtain s' where s': "run names_example C s7 = Some s'" "state s' = IDLE"
    "annotations s' = annotations s7 @
               (r1_annotations (byte_bits 0xc0 560) 0xc0
     @ [(bit_ss (byte_bits 0xc0 560 ! 7), bit_es (byte_bits 0xc0 560 ! 0), Ann_R3,
          ''R1: 0x'' @ hex_pad 2 0xc0),
        (bit_ss (byte_bits 0xc0 560 ! 7), 960, Ann_R3, ''R3: [R1: 0x'' @ hex_pad 2 0xc0
           @ '', OCR: 0x''
           @ hex_pad 8 (push_bit 24 0x08 OR push_bit 16 0x00 OR push_bit 8 0x00 OR 0x00)
           @ '']'')]
     @ ocr_annotations (byte_bits 0x08 640) (byte_bits 0x00 720) (byte_bits 0x00 800)
         (byte_bits 0x00 880))"
    by blast
  define A where "A = transfer 0 0x7a 0xff @ transfer 1 0x00 0xff @ transfer 2 0x00 0xff
       @ transfer 3 0x00 0xff @ transfer 4 0x00 0xff @ transfer 5 0xfd 0xff"
  have split: "r3_session = A @ transfer 6 0xff 0xff @ C"
    by (simp add: r3_session_def A_def C_def)
  have "run names_example A reset = Some s6"
    using s6(1) by (simp only: A_def)
  with run7 s'(1) have run: "run names_example r3_session reset = Some s'"
    unfolding split by (simp add: run_append)
  have "annotations s' = annotations s6
       @ [(0, 480, Ann_CMD 58, ''CMD58 (READ_OCR): Read the OCR register'')]
       @ [(560, 640, Ann_R1, ''R1: 0xc0''),
      (630, 640, Ann_BIT, ''Card is not in idle state''),
      (620, 630, Ann_BIT, ''Erase sequence not cleared''),
      (610, 620, Ann_BIT, ''No illegal command detected''),
      (600, 610, Ann_BIT, ''CRC check of last command was successful''),
      (590, 600, Ann_BIT, ''No error in the sequence of erase commands''),
      (580, 590, Ann_BIT, ''No misaligned address used in command''),
      (570, 580, Ann_BIT, ''Command argument outside allowed range''),
      (560, 570, Ann_BIT, ''Bit 7 (always 0)''),
      (560, 640, Ann_R3, ''R1: 0xc0''),
      (560, 960, Ann_R3, ''R3: [R1: 0xc0, OCR: 0x08000000]''),
      (640, 650, Ann_BIT, ''Card has not finished the power up routine''),
      (650, 660, Ann_BIT, ''Card capacity is unknown''),
      (660, 670, Ann_BIT, ''UHS-II interface not supported''),
      (670, 680, Ann_BIT, ''Reserved''),
      (680, 690, Ann_BIT, ''Over 2TB is supported''),
      (690, 710, Ann_BIT, ''Reserved''),
      (710, 720, Ann_BIT, ''Switching to 1.8V not accepted''),
      (800, 810, Ann_BIT, ''2.7-2.8V not supported''),
      (790, 800, Ann_BIT, ''2.8-2.9V not supported''),
      (780, 790, Ann_BIT, ''2.9-3.0V not supported''),
      (770, 780, Ann_BIT, ''3.0-3.1V not supported''),
      (760, 770, Ann_BIT, ''3.1-3.2V not supported''),
      (750, 760, Ann_BIT, ''3.2-3.3V not supported''),
      (740, 750, Ann_BIT, ''3.3-3.4V not supported''),
      (730, 740, Ann_BIT, ''3.4-3.5V not supported''),
      (720, 730, Ann_BIT, ''3.5-3.6V not supported''),
      (810, 880, Ann_BIT, ''Reserved''),
      (880, 890, Ann_BIT, ''Reserved''),
      (890, 960, Ann_BIT, ''Reserved'')]"
    using s'(3) s7(7) unfolding r3_example_annotations by simp
  with s6(9) run s'(2) show ?thesis
    by (simp add: last_phase_def anns_def texts_def)
qed

subsection \<open>What holds after a call\<close>

lemma holds_after_Some [simp]: "holds_after (Some v) Q = Q v"
  by (simp add: holds_after_def)

lemma holds_after_None [simp]: "holds_after None Q = True"
  by (simp add: holds_after_def)

lemma holds_after_bind [simp]:
  "holds_after (Option.bind m f) Q = holds_after m (\<lambda>v. holds_after (f v) Q)"
  by (cases m) (simp_all add: holds_after_def)

lemma holds_after_if [simp]:
  "holds_after (if c then x else y) Q = (if c then holds_after x Q else holds_after y Q)"
  by simp

lemma holds_after_read:
  "holds_after m Q = (\<forall>v. m = Some v \<longrightarrow> Q v)"
  by (cases m) simp_all

lemma holds_after_idx [simp]: "holds_after (idx xs i) Q = (i < length xs \<longrightarrow> Q (xs ! i))"
  by (simp add: idx_def)

lemma holds_after_idx_read: "holds_after (idx xs i) Q = (\<forall>v. idx xs i = Some v \<longrightarrow> Q v)"
  by (rule holds_after_read)

lemma holds_after_weak_cong: "m = m' \<Longrightarrow> holds_after m Q = holds_after m' Q"
  by simp

lemmas holds_after_attr =
  holds_after_read [of "mosi_bits s"] holds_after_read [of "miso_bits s"]
  holds_after_read [of "arg s"] holds_after_read [of "miso s"]
  holds_after_read [of "ss_data s"] holds_after_read [of "es_data s"]
  holds_after_read [of "ss_crc s"] holds_after_read [of "es_crc s"]
  for s

lemma holds_afterD: "holds_after m Q \<Longrightarrow> m = Some v \<Longrightarrow> Q v"
  by simp

text \<open>
  A conditional between two updates of the same decoder is an update with a
  conditional value: the simplifier then has no case distinction to make on the
  decoder itself.
\<close>

lemma if_putb:
  "(if c then putb a x s else putb b y s) = putb (if c then a else b) (if c then x else y) s"
  by simp

lemma if_is_acmd:
  "(if c then s\<lparr>is_acmd := v\<rparr> else s) = s\<lparr>is_acmd := (if c then v else is_acmd s)\<rparr>"
  "(if c then s\<lparr>is_acmd := v\<rparr> else s\<lparr>is_acmd := w\<rparr>) = s\<lparr>is_acmd := (if c then v else w)\<rparr>"
  by simp_all

lemma if_ss_cmd:
  "(if c then s\<lparr>ss_cmd := v\<rparr> else s) = s\<lparr>ss_cmd := (if c then v else ss_cmd s)\<rparr>"
  by simp

lemma handle_command_token_frame:
  "holds_after (handle_command_token T mo mi s)
     (\<lambda>s'. (state s' = state s \<or> (\<exists>n. state s' = HANDLE_CMD n))
           \<and> is_cmd24 s' = is_cmd24 s \<and> is_cmd17 s' = is_cmd17 s
           \<and> read_buf s' = read_buf s)"
  by (simp add: handle_command_token_def tb_def Let_def holds_after_attr if_putb if_is_acmd
        if_ss_cmd putb_def putx_def put_def
      cong: holds_after_weak_cong let_weak_cong)

lemma if_state:
  "(if c then s\<lparr>state := v\<rparr> else s) = s\<lparr>state := (if c then v else state s)\<rparr>"
  by simp

lemma handle_cmd_frame:
  assumes "handle_cmd_lookup a n = Some h"
  shows "holds_after (h s)
     (\<lambda>s'. state s' \<in> {state s, IDLE, GET_RESPONSE_R1, GET_RESPONSE_R2, GET_RESPONSE_R3,
                          GET_RESPONSE_R7}
           \<and> is_acmd s' = (is_acmd s \<or> (\<not> a \<and> n = 55)))"
  using assms
  by (auto simp add: handle_cmd_lookup_def handle_acmd41_def handle_cmd0_def
      handle_cmd1_def handle_cmd8_def handle_cmd9_def handle_cmd10_def handle_cmd13_def
      handle_cmd16_def handle_cmd17_def handle_cmd24_def handle_cmd49_def handle_cmd55_def
      handle_cmd58_def handle_cmd59_def handle_cmd999_def holds_after_attr Let_def if_ss_cmd
      putc_def putx_def putb_def put_def
      split: if_splits cong: holds_after_weak_cong let_weak_cong)

lemma handle_response_r1_frame:
  "holds_after (handle_response_r1 res s)
     (\<lambda>s'. state s' = (if is_cmd24 s then HANDLE_DATA_BLOCK_CMD24
                       else if is_cmd17 s then HANDLE_DATA_BLOCK_CMD17 else state s)
           \<and> is_cmd24 s' = is_cmd24 s \<and> is_cmd17 s' = is_cmd17 s \<and> is_acmd s' = is_acmd s
           \<and> read_buf s' = read_buf s \<and> read_bits s' = read_bits s
           \<and> cmd_token s' = cmd_token s)"
  by (simp add: handle_response_r1_def putbit_def Let_def holds_after_attr if_state
        putx_def putb_def put_def
      cong: holds_after_weak_cong let_weak_cong)

subsection \<open>Two sessions over the same packets\<close>

text \<open>
  Claim C9. A session is a function of the name tables, the packets and the decoder it
  starts from: \<^verbatim>\<open>decode\<close> reads nothing else. Two new decoders, each as \<^verbatim>\<open>__init__\<close>
  leaves it, that receive the same packets end alike: both raise at the same packet or
  both return, with the same annotations in the same order (sample ranges, classes
  and texts) and the same last phase.
\<close>

theorem sessions_agree:
  assumes "s1 = reset" and "s2 = reset"
  shows "run T evs s1 = run T evs s2
       \<and> anns (run T evs s1) = anns (run T evs s2)
       \<and> last_phase (run T evs s1) = last_phase (run T evs s2)"
  using assms by simp

theorem sessions_agree_witness:
  "reset = reset
   \<and> anns (run names_example (transfer 0 0x40 0xff) reset)
       = anns (run names_example (transfer 0 0x40 0xff) reset)
   \<and> last_phase (run names_example (transfer 0 0x40 0xff) reset) = Some GET_COMMAND_TOKEN"
  using sessions_agree [of reset reset names_example "transfer 0 0x40 0xff"]
  by (simp add: last_phase_def transfer_def decode_def handle_command_token_def reset_def)

end
